theory Spec2Isabelle
  imports Main "HOL-Library.Sublist" "HOL-Library.Char_ord" "HOL-Library.List_Lexorder"
begin

section \<open>The console script (cli.py)\<close>

text \<open>
  The console script is a chained command group. Its callbacks share one dictionary,
  \<open>ctx.obj\<close>, and hand workflows to the workflow engine, which runs external programs.
  The dictionary is a map from keys to Python values; a workflow that was run is recorded
  in a log, and whether the engine's \<open>run()\<close> returns or raises is a parameter
  \<open>run_ok\<close> of the model, as is the file system (\<open>is_file\<close>). Exceptions are values of type
  \<open>error\<close>.
\<close>

datatype node_kind = DataSink | Tractography | SamplePipeline

datatype pyval = PyNone | PyStr string | PyNode node
and node = Node (kind: node_kind) (node_name: string) (node_inputs: "(string \<times> pyval) list")

record workflow =
  wf_name :: string
  connections :: "(node \<times> pyval \<times> (string \<times> string) list) list"

record state =
  obj :: "string \<rightharpoonup> pyval"
  ran :: "workflow list"

datatype error = KeyError string | RunFailed string | UsageError string
  | TypeError | ValueError | IOError | TraitError string | NotImplementedError

text \<open>The six options of the group; \<open>None\<close> is an option that was not given.\<close>

record options =
  opt_in_file :: "string option"
  opt_bvec :: "string option"
  opt_bval :: "string option"
  opt_anat :: "string option"
  opt_odf :: "string option"
  opt_seed :: "string option"

definition bind_err :: "error + 'a \<Rightarrow> ('a \<Rightarrow> error + 'b) \<Rightarrow> error + 'b" where
  "bind_err r f = (case r of Inl e \<Rightarrow> Inl e | Inr x \<Rightarrow> f x)"

text \<open>A click option of type \<open>str\<close>: \<open>None\<close> when absent.\<close>

definition optval :: "string option \<Rightarrow> pyval" where
  "optval v = (case v of None \<Rightarrow> PyNone | Some p \<Rightarrow> PyStr p)"

text \<open>\<open>ctx.obj[k]\<close>: a missing key raises \<open>KeyError\<close>.\<close>

definition getitem :: "state \<Rightarrow> string \<Rightarrow> error + pyval" where
  "getitem s k = (case obj s k of None \<Rightarrow> Inl (KeyError k) | Some v \<Rightarrow> Inr v)"

definition setitem :: "string \<Rightarrow> pyval \<Rightarrow> state \<Rightarrow> state" where
  "setitem k v s = s\<lparr>obj := (obj s)(k \<mapsto> v)\<rparr>"

text \<open>\<open>wf.run()\<close>: the workflow is logged when the engine returns, else the run raises.\<close>

definition run :: "(workflow \<Rightarrow> bool) \<Rightarrow> workflow \<Rightarrow> state \<Rightarrow> error + state" where
  "run run_ok w s =
     (if run_ok w then Inr (s\<lparr>ran := ran s @ [w]\<rparr>) else Inl (RunFailed (wf_name w)))"

definition datasink :: node where
  "datasink = Node DataSink ''datasink''
     [(''base_directory'', PyStr ''/Users/bsms9gep/''), (''container'', PyStr ''tramp'')]"

definition cli :: "options \<Rightarrow> state \<Rightarrow> state" where
  "cli opts s =
     setitem ''results'' (PyNode datasink)
      (setitem ''seed'' (optval (opt_seed opts))
       (setitem ''odf'' (optval (opt_odf opts))
        (setitem ''anat'' (optval (opt_anat opts))
         (setitem ''bval'' (optval (opt_bval opts))
          (setitem ''bvec'' (optval (opt_bvec opts))
           (setitem ''in_file'' (optval (opt_in_file opts)) s))))))"

definition recon_workflow :: "pyval \<Rightarrow> pyval \<Rightarrow> pyval \<Rightarrow> pyval \<Rightarrow> workflow" where
  "recon_workflow dwi bvecs bvals sink =
     \<lparr>wf_name = ''recon'',
      connections =
        [(Node SamplePipeline ''dwi''
            [(''inputnode.dwi'', dwi), (''inputnode.bvecs'', bvecs), (''inputnode.bvals'', bvals)],
          sink,
          [(''outputnode.csd'', ''@odf''), (''dwi_mask.out_file'', ''@mask'')])]\<rparr>"

definition dw_recon :: "(workflow \<Rightarrow> bool) \<Rightarrow> state \<Rightarrow> error + state" where
  "dw_recon run_ok s =
     bind_err (getitem s ''in_file'') (\<lambda>dwi.
     bind_err (getitem s ''bvec'') (\<lambda>bvecs.
     bind_err (getitem s ''bval'') (\<lambda>bvals.
     bind_err (getitem s ''results'') (\<lambda>sink.
     bind_err (run run_ok (recon_workflow dwi bvecs bvals sink) s) (\<lambda>s1.
     let s2 = setitem ''odf'' (PyStr ''/Users/bsms9gep/tramp/wm.mif'') s1 in
     bind_err (getitem s2 ''seed'') (\<lambda>sd.
     Inr (if sd = PyNone
          then setitem ''seed'' (PyStr ''/Users/bsms9gep/tramp/brainmask.mif'') s2
          else s2)))))))"

definition track_workflow :: "pyval \<Rightarrow> pyval \<Rightarrow> pyval \<Rightarrow> workflow" where
  "track_workflow odf sd sink =
     \<lparr>wf_name = ''track'',
      connections =
        [(Node Tractography ''track'' [(''in_file'', odf), (''seed_image'', sd)],
          sink,
          [(''out_file'', ''@tck'')])]\<rparr>"

text \<open>
  The tractography node declares \<open>in_file\<close> and \<open>seed_image\<close> as files that exist: the
  assignment \<open>tck.inputs.in_file = v\<close> raises \<open>TraitError\<close> unless \<open>v\<close> is a string that names an
  existing file. Whether a path names a file at that moment, after the workflows run so
  far, is a parameter \<open>is_file\<close> of the model.
\<close>

definition set_existing_file :: "(string \<Rightarrow> bool) \<Rightarrow> string \<Rightarrow> pyval \<Rightarrow> error + pyval" where
  "set_existing_file exists_now n v =
     (case v of
        PyStr p \<Rightarrow> if exists_now p then Inr v else Inl (TraitError n)
      | _ \<Rightarrow> Inl (TraitError n))"

definition odf_track :: "(workflow list \<Rightarrow> string \<Rightarrow> bool) \<Rightarrow> (workflow \<Rightarrow> bool) \<Rightarrow> state \<Rightarrow>
    error + state" where
  "odf_track is_file run_ok s =
     bind_err (getitem s ''odf'') (\<lambda>odf.
     bind_err (set_existing_file (is_file (ran s)) ''in_file'' odf) (\<lambda>in_file.
     bind_err (getitem s ''seed'') (\<lambda>sd.
     bind_err (set_existing_file (is_file (ran s)) ''seed_image'' sd) (\<lambda>seed_image.
     bind_err (getitem s ''results'') (\<lambda>sink.
     bind_err (run run_ok (track_workflow in_file seed_image sink) s) (\<lambda>s1.
     Inr (setitem ''tck'' (PyStr ''/Users/bsms9gep/tramp/tracking.tck'') s1)))))))"

definition tck_filter :: "pyval \<Rightarrow> state \<Rightarrow> error + state" where
  "tck_filter tck s = Inr s"

text \<open>
  The group: \<open>chain=True\<close>, and the subcommands registered on it, by name. A callback gets
  the values of its own options (only \<open>filter\<close> declares one, \<open>--tck\<close>).
\<close>

definition chain :: bool where
  "chain = True"

definition kwarg :: "(string \<times> string) list \<Rightarrow> string \<Rightarrow> pyval" where
  "kwarg kw k = optval (map_of kw k)"

definition commands ::
    "(string \<times> ((string \<times> string) list \<Rightarrow> (workflow list \<Rightarrow> string \<Rightarrow> bool) \<Rightarrow>
       (workflow \<Rightarrow> bool) \<Rightarrow> state \<Rightarrow> error + state)) list" where
  "commands =
     [(''recon'', \<lambda>kw is_file. dw_recon),
      (''track'', \<lambda>kw. odf_track),
      (''filter'', \<lambda>kw is_file run_ok. tck_filter (kwarg kw ''tck''))]"

text \<open>
  A chained invocation: the group's callback runs first on the dictionary \<open>{}\<close> that
  the entry point passes, every subcommand name is resolved, then the subcommands run in
  the order given.
\<close>

fun resolve_all :: "(string \<times> (string \<times> string) list) list \<Rightarrow>
    error + (((workflow list \<Rightarrow> string \<Rightarrow> bool) \<Rightarrow> (workflow \<Rightarrow> bool) \<Rightarrow> state \<Rightarrow>
      error + state) list)" where
  "resolve_all [] = Inr []"
| "resolve_all ((name, kw) # rest) =
     (case map_of commands name of
        None \<Rightarrow> Inl (UsageError name)
      | Some h \<Rightarrow> bind_err (resolve_all rest) (\<lambda>hs. Inr (h kw # hs)))"

fun invoke_all :: "(workflow list \<Rightarrow> string \<Rightarrow> bool) \<Rightarrow> (workflow \<Rightarrow> bool) \<Rightarrow>
    ((workflow list \<Rightarrow> string \<Rightarrow> bool) \<Rightarrow> (workflow \<Rightarrow> bool) \<Rightarrow> state \<Rightarrow> error + state) list \<Rightarrow>
    state \<Rightarrow> error + state" where
  "invoke_all is_file run_ok [] s = Inr s"
| "invoke_all is_file run_ok (h # hs) s =
     bind_err (h is_file run_ok s) (invoke_all is_file run_ok hs)"

definition main :: "(workflow list \<Rightarrow> string \<Rightarrow> bool) \<Rightarrow> (workflow \<Rightarrow> bool) \<Rightarrow> options \<Rightarrow>
    (string \<times> (string \<times> string) list) list \<Rightarrow> error + state" where
  "main is_file run_ok opts calls =
     (let s = cli opts \<lparr>obj = Map.empty, ran = []\<rparr>
      in bind_err (resolve_all calls) (\<lambda>hs. invoke_all is_file run_ok hs s))"

text \<open>
  The directory a data sink writes to: its container, inside its base directory.
\<close>

definition sink_dir :: "node \<Rightarrow> string" where
  "sink_dir n =
     (case (map_of (node_inputs n) ''base_directory'', map_of (node_inputs n) ''container'') of
        (Some (PyStr b), Some (PyStr c)) \<Rightarrow> b @ c @ ''/''
      | _ \<Rightarrow> [])"

text \<open>
  A workflow that sinks its outputs: one connection, into the given sink, carrying the
  reconstruction's two outputs (for \<open>recon\<close>) or the tractogram (for \<open>track\<close>).
\<close>

definition sinks_into :: "pyval \<Rightarrow> workflow \<Rightarrow> bool" where
  "sinks_into sink w =
     (case connections w of
        [(src, dst, links)] \<Rightarrow>
          dst = sink \<and>
          links = (if wf_name w = ''recon''
                   then [(''outputnode.csd'', ''@odf''), (''dwi_mask.out_file'', ''@mask'')]
                   else [(''out_file'', ''@tck'')])
      | _ \<Rightarrow> False)"

text \<open>
  The invariant of a chained invocation: the sink is the fixed data sink, every workflow
  that ran is connected to it, and the paths under \<open>odf\<close>, \<open>seed\<close> and \<open>tck\<close> are the
  user's options or the fixed paths.
\<close>

definition sunk_inv :: "options \<Rightarrow> state \<Rightarrow> bool" where
  "sunk_inv opts s \<longleftrightarrow>
     obj s ''results'' = Some (PyNode datasink) \<and>
     (\<forall>w \<in> set (ran s). \<forall>c \<in> set (connections w). fst (snd c) = PyNode datasink) \<and>
     (obj s ''odf'' = Some (optval (opt_odf opts)) \<or>
      obj s ''odf'' = Some (PyStr ''/Users/bsms9gep/tramp/wm.mif'')) \<and>
     (obj s ''seed'' = Some (optval (opt_seed opts)) \<or>
      obj s ''seed'' = Some (PyStr ''/Users/bsms9gep/tramp/brainmask.mif'')) \<and>
     (obj s ''tck'' = None \<or>
      obj s ''tck'' = Some (PyStr ''/Users/bsms9gep/tramp/tracking.tck''))"

section \<open>The wrappers of the command-line tools (preprocess.py)\<close>

text \<open>
  A wrapper is declarative: the name of an external program, the typed inputs with the
  metadata that says how each becomes an argument, and the names of the outputs. A value
  that is \<open>Undefined\<close> in Python is an absent key of the inputs. The base input spec of
  the MRtrix3 wrappers lives in a module whose text is not at hand.
\<close>

datatype "value" = VStr string | VInt int | VBool bool | VList "value list" | VTuple "value list"

datatype trait_type = TFile | TInt | TBool | TListInt | TEnum "string list"
  | TTuple "trait_type list" | TInputMultiObject trait_type

record trait =
  tname :: string
  ttype :: trait_type
  default_value :: "value option"
  usedefault :: bool
  exists :: bool
  argstr :: "string option"
  position :: "int option"
  mandatory :: bool
  sep :: "string option"
  minlen :: "nat option"
  maxlen :: "nat option"
  name_template :: "string option"
  name_source :: "string option"
  keep_extension :: bool
  xor_inputs :: "string list option"
  genfile :: bool

definition mk_trait :: "string \<Rightarrow> trait_type \<Rightarrow> trait" where
  "mk_trait n ty =
     \<lparr>tname = n, ttype = ty, default_value = None, usedefault = False, exists = False,
      argstr = None, position = None, mandatory = False, sep = None, minlen = None,
      maxlen = None, name_template = None, name_source = None, keep_extension = False,
      xor_inputs = None, genfile = False\<rparr>"

record interface =
  cmd :: string
  input_spec :: "trait list"
  output_spec :: "string list"

text \<open>
  Modelled from the spec: the inputs every MRtrix3 wrapper inherits (\<open>MRTrix3BaseInputSpec\<close>
  of the sibling module \<open>base\<close>). Only \<open>grad_fsl\<close> is described, by the documented example of
  \<open>ResponseSD\<close>: a pair of files rendered as \<open>-fslgrad bvecs bvals\<close>.
\<close>

definition MRTrix3BaseInputSpec :: "trait list" where
  "MRTrix3BaseInputSpec =
     [(mk_trait ''grad_fsl'' (TTuple [TFile, TFile]))\<lparr>argstr := Some ''-fslgrad %s %s''\<rparr>]"

definition DWIDenoiseInputSpec :: "trait list" where
  "DWIDenoiseInputSpec = MRTrix3BaseInputSpec @
     [(mk_trait ''in_file'' TFile)
        \<lparr>exists := True, argstr := Some ''%s'', position := Some (- 2), mandatory := True\<rparr>,
      (mk_trait ''mask'' TFile)
        \<lparr>exists := True, argstr := Some ''-mask %s'', position := Some 1\<rparr>,
      (mk_trait ''extent'' (TTuple [TInt, TInt, TInt]))
        \<lparr>argstr := Some ''-extent %d,%d,%d''\<rparr>,
      (mk_trait ''noise'' TFile)
        \<lparr>argstr := Some ''-noise %s'', name_template := Some ''%s_noise'',
         name_source := Some ''in_file'', keep_extension := True\<rparr>,
      (mk_trait ''out_file'' TFile)
        \<lparr>argstr := Some ''%s'', position := Some (- 1), name_template := Some ''%s_denoised'',
         name_source := Some ''in_file'', keep_extension := True\<rparr>]"

definition DWIDenoise :: interface where
  "DWIDenoise = \<lparr>cmd = ''dwidenoise'', input_spec = DWIDenoiseInputSpec,
     output_spec = [''noise'', ''out_file'']\<rparr>"

definition MRDeGibbsInputSpec :: "trait list" where
  "MRDeGibbsInputSpec = MRTrix3BaseInputSpec @
     [(mk_trait ''in_file'' TFile)
        \<lparr>exists := True, argstr := Some ''%s'', position := Some (- 2), mandatory := True\<rparr>,
      (mk_trait ''axes'' TListInt)
        \<lparr>default_value := Some (VList [VInt 0, VInt 1]), usedefault := True, sep := Some '','',
         minlen := Some 2, maxlen := Some 2, argstr := Some ''-axes %s''\<rparr>,
      (mk_trait ''nshifts'' TInt)
        \<lparr>default_value := Some (VInt 20), usedefault := True, argstr := Some ''-nshifts %d''\<rparr>,
      (mk_trait ''minW'' TInt)
        \<lparr>default_value := Some (VInt 1), usedefault := True, argstr := Some ''-minW %d''\<rparr>,
      (mk_trait ''maxW'' TInt)
        \<lparr>default_value := Some (VInt 3), usedefault := True, argstr := Some ''-maxW %d''\<rparr>,
      (mk_trait ''out_file'' TFile)
        \<lparr>name_template := Some ''%s_unr'', name_source := Some ''in_file'',
         keep_extension := True, argstr := Some ''%s'', position := Some (- 1)\<rparr>]"

definition MRDeGibbs :: interface where
  "MRDeGibbs = \<lparr>cmd = ''mrdegibbs'', input_spec = MRDeGibbsInputSpec,
     output_spec = [''out_file'']\<rparr>"

definition DWIBiasCorrectInputSpec :: "trait list" where
  "DWIBiasCorrectInputSpec = MRTrix3BaseInputSpec @
     [(mk_trait ''in_file'' TFile)
        \<lparr>exists := True, argstr := Some ''%s'', position := Some (- 2), mandatory := True\<rparr>,
      (mk_trait ''in_mask'' TFile)\<lparr>argstr := Some ''-mask %s''\<rparr>,
      (mk_trait ''use_ants'' TBool)
        \<lparr>argstr := Some ''-ants'', mandatory := True, xor_inputs := Some [''use_fsl'']\<rparr>,
      (mk_trait ''use_fsl'' TBool)
        \<lparr>argstr := Some ''-fsl'', mandatory := True, xor_inputs := Some [''use_ants'']\<rparr>,
      (mk_trait ''bias'' TFile)\<lparr>argstr := Some ''-bias %s''\<rparr>,
      (mk_trait ''out_file'' TFile)
        \<lparr>name_template := Some ''%s_biascorr'', name_source := Some ''in_file'',
         keep_extension := True, argstr := Some ''%s'', position := Some (- 1), genfile := True\<rparr>]"

definition DWIBiasCorrect :: interface where
  "DWIBiasCorrect = \<lparr>cmd = ''dwibiascorrect'', input_spec = DWIBiasCorrectInputSpec,
     output_spec = [''bias'', ''out_file'']\<rparr>"

definition ResponseSDInputSpec :: "trait list" where
  "ResponseSDInputSpec = MRTrix3BaseInputSpec @
     [(mk_trait ''algorithm'' (TEnum [''msmt_5tt'', ''dhollander'', ''tournier'', ''tax'']))
        \<lparr>argstr := Some ''%s'', position := Some 1, mandatory := True\<rparr>,
      (mk_trait ''in_file'' TFile)
        \<lparr>exists := True, argstr := Some ''%s'', position := Some (- 5), mandatory := True\<rparr>,
      (mk_trait ''mtt_file'' TFile)\<lparr>argstr := Some ''%s'', position := Some (- 4)\<rparr>,
      (mk_trait ''wm_file'' TFile)
        \<lparr>default_value := Some (VStr ''wm.txt''), argstr := Some ''%s'', position := Some (- 3),
         usedefault := True\<rparr>,
      (mk_trait ''gm_file'' TFile)\<lparr>argstr := Some ''%s'', position := Some (- 2)\<rparr>,
      (mk_trait ''csf_file'' TFile)\<lparr>argstr := Some ''%s'', position := Some (- 1)\<rparr>,
      (mk_trait ''in_mask'' TFile)\<lparr>exists := True, argstr := Some ''-mask %s''\<rparr>,
      (mk_trait ''max_sh'' (TInputMultiObject TInt))
        \<lparr>argstr := Some ''-lmax %s'', sep := Some '',''\<rparr>]"

definition ResponseSD :: interface where
  "ResponseSD = \<lparr>cmd = ''dwi2response'', input_spec = ResponseSDInputSpec,
     output_spec = [''wm_file'', ''gm_file'', ''csf_file'']\<rparr>"

definition ACTPrepareFSLInputSpec :: "trait list" where
  "ACTPrepareFSLInputSpec =
     [(mk_trait ''in_file'' TFile)
        \<lparr>exists := True, argstr := Some ''%s'', mandatory := True, position := Some (- 2)\<rparr>,
      (mk_trait ''out_file'' TFile)
        \<lparr>default_value := Some (VStr ''act_5tt.mif''), argstr := Some ''%s'', mandatory := True,
         position := Some (- 1), usedefault := True\<rparr>]"

definition ACTPrepareFSL :: interface where
  "ACTPrepareFSL = \<lparr>cmd = ''act_anat_prepare_fsl'', input_spec = ACTPrepareFSLInputSpec,
     output_spec = [''out_file'']\<rparr>"

definition ReplaceFSwithFIRSTInputSpec :: "trait list" where
  "ReplaceFSwithFIRSTInputSpec =
     [(mk_trait ''in_file'' TFile)
        \<lparr>exists := True, argstr := Some ''%s'', mandatory := True, position := Some (- 4)\<rparr>,
      (mk_trait ''in_t1w'' TFile)
        \<lparr>exists := True, argstr := Some ''%s'', mandatory := True, position := Some (- 3)\<rparr>,
      (mk_trait ''in_config'' TFile)
        \<lparr>exists := True, argstr := Some ''%s'', position := Some (- 2)\<rparr>,
      (mk_trait ''out_file'' TFile)
        \<lparr>default_value := Some (VStr ''aparc+first.mif''), argstr := Some ''%s'', mandatory := True,
         position := Some (- 1), usedefault := True\<rparr>]"

definition ReplaceFSwithFIRST :: interface where
  "ReplaceFSwithFIRST = \<lparr>cmd = ''fs_parc_replace_sgm_first'',
     input_spec = ReplaceFSwithFIRSTInputSpec, output_spec = [''out_file'']\<rparr>"

text \<open>The wrapper classes of the module, by class name.\<close>

definition wrappers :: "(string \<times> interface) list" where
  "wrappers =
     [(''DWIDenoise'', DWIDenoise), (''MRDeGibbs'', MRDeGibbs),
      (''DWIBiasCorrect'', DWIBiasCorrect), (''ResponseSD'', ResponseSD),
      (''ACTPrepareFSL'', ACTPrepareFSL), (''ReplaceFSwithFIRST'', ReplaceFSwithFIRST)]"

text \<open>The inputs of a fresh wrapper: the declared default of each trait with \<open>usedefault\<close>.\<close>

definition default_inputs :: "trait list \<Rightarrow> (string \<rightharpoonup> value)" where
  "default_inputs spec =
     map_of (concat (map (\<lambda>t. case default_value t of
                              Some v \<Rightarrow> if usedefault t then [(tname t, v)] else []
                            | None \<Rightarrow> []) spec))"

text \<open>\<open>op.abspath\<close> of an input: a string, else Python raises \<open>TypeError\<close>.\<close>

definition abspath_of :: "(string \<Rightarrow> string) \<Rightarrow> value option \<Rightarrow> error + value" where
  "abspath_of abspath v = (case v of Some (VStr p) \<Rightarrow> Inr (VStr (abspath p)) | _ \<Rightarrow> Inl TypeError)"

text \<open>
  \<open>_list_outputs\<close>: the outputs start \<open>Undefined\<close> (no key); \<open>abspath\<close> is the standard
  library's function, which depends on the working directory of the process and is a
  parameter here.
\<close>

definition ResponseSD_list_outputs ::
    "(string \<Rightarrow> string) \<Rightarrow> (string \<rightharpoonup> value) \<Rightarrow> error + (string \<rightharpoonup> value)" where
  "ResponseSD_list_outputs abspath inputs =
     bind_err (abspath_of abspath (inputs ''wm_file'')) (\<lambda>wm.
     let outputs = Map.empty(''wm_file'' \<mapsto> wm) in
     bind_err (if inputs ''gm_file'' \<noteq> None
               then bind_err (abspath_of abspath (inputs ''gm_file''))
                      (\<lambda>gm. Inr (outputs(''gm_file'' \<mapsto> gm)))
               else Inr outputs) (\<lambda>outputs.
     if inputs ''csf_file'' \<noteq> None
     then bind_err (abspath_of abspath (inputs ''csf_file''))
            (\<lambda>csf. Inr (outputs(''csf_file'' \<mapsto> csf)))
     else Inr outputs))"

definition ACTPrepareFSL_list_outputs ::
    "(string \<Rightarrow> string) \<Rightarrow> (string \<rightharpoonup> value) \<Rightarrow> error + (string \<rightharpoonup> value)" where
  "ACTPrepareFSL_list_outputs abspath inputs =
     bind_err (abspath_of abspath (inputs ''out_file'')) (\<lambda>out.
     Inr (Map.empty(''out_file'' \<mapsto> out)))"

definition ReplaceFSwithFIRST_list_outputs ::
    "(string \<Rightarrow> string) \<Rightarrow> (string \<rightharpoonup> value) \<Rightarrow> error + (string \<rightharpoonup> value)" where
  "ReplaceFSwithFIRST_list_outputs abspath inputs =
     bind_err (abspath_of abspath (inputs ''out_file'')) (\<lambda>out.
     Inr (Map.empty(''out_file'' \<mapsto> out)))"

text \<open>The methods the wrapper classes define themselves, by class name: three \<open>_list_outputs\<close>.\<close>

definition list_outputs ::
    "(string \<times> ((string \<Rightarrow> string) \<Rightarrow> (string \<rightharpoonup> value) \<Rightarrow> error + (string \<rightharpoonup> value))) list" where
  "list_outputs =
     [(''ResponseSD'', ResponseSD_list_outputs),
      (''ACTPrepareFSL'', ACTPrepareFSL_list_outputs),
      (''ReplaceFSwithFIRST'', ReplaceFSwithFIRST_list_outputs)]"

section \<open>From typed parameters to a command line\<close>

text \<open>
  The wrappers only declare their inputs; the translation into a command line is done by
  the classes they inherit from, in a library whose text is not among the source files.
  It is modelled here from what the specification and the documented examples of the
  wrappers say of it.
\<close>

text \<open>
  Python's \<open>str\<close> of an integer, its \<open>%\<close> formatting with the conversions \<open>%s\<close>, \<open>%d\<close> and
  \<open>%%\<close> (a failed conversion, too few or too many arguments raise, here \<open>None\<close>),
  \<open>sep.join\<close>, the test \<open>"%s" in s\<close>, \<open>s.replace("...", "")\<close>, \<open>endswith\<close>, \<open>lower\<close>, and
  \<open>basename\<close> and \<open>splitext\<close> of \<open>os.path\<close>.
\<close>

fun digits :: "nat \<Rightarrow> string" where
  "digits n =
     (if n < 10 then [''0123456789'' ! n]
      else digits (n div 10) @ [''0123456789'' ! (n mod 10)])"

declare digits.simps [simp del]

definition str_int :: "int \<Rightarrow> string" where
  "str_int i = (if i < 0 then CHR ''-'' # digits (nat (- i)) else digits (nat i))"

definition pystr :: "value \<Rightarrow> string option" where
  "pystr v =
     (case v of
        VStr s \<Rightarrow> Some s
      | VInt i \<Rightarrow> Some (str_int i)
      | VBool b \<Rightarrow> Some (if b then ''True'' else ''False'')
      | _ \<Rightarrow> None)"

fun pyformat :: "string \<Rightarrow> value list \<Rightarrow> string option" where
  "pyformat [] [] = Some []"
| "pyformat [] (a # as) = None"
| "pyformat [c] as = (if c = CHR ''%'' then None else map_option ((#) c) (pyformat [] as))"
| "pyformat (c # d # fmt) as =
     (if c \<noteq> CHR ''%'' then map_option ((#) c) (pyformat (d # fmt) as)
      else if d = CHR ''%'' then map_option ((#) c) (pyformat fmt as)
      else case as of
        [] \<Rightarrow> None
      | a # as' \<Rightarrow>
          if d = CHR ''s'' then
            (case pystr a of
               None \<Rightarrow> None
             | Some s \<Rightarrow> map_option ((@) s) (pyformat fmt as'))
          else if d = CHR ''d'' then
            (case a of
               VInt i \<Rightarrow> map_option ((@) (str_int i)) (pyformat fmt as')
             | _ \<Rightarrow> None)
          else None)"

fun join :: "string \<Rightarrow> string list \<Rightarrow> string" where
  "join s [] = []"
| "join s [x] = x"
| "join s (x # y # xs) = x @ s @ join s (y # xs)"

fun contains_pct_s :: "string \<Rightarrow> bool" where
  "contains_pct_s (c # d # r) = ((c = CHR ''%'' \<and> d = CHR ''s'') \<or> contains_pct_s (d # r))"
| "contains_pct_s r = False"

fun remove_dots :: "string \<Rightarrow> string" where
  "remove_dots (a # b # c # r) =
     (if a = CHR ''.'' \<and> b = CHR ''.'' \<and> c = CHR ''.'' then remove_dots r
      else a # remove_dots (b # c # r))"
| "remove_dots r = r"

definition endswith :: "string \<Rightarrow> string \<Rightarrow> bool" where
  "endswith s e = prefix (rev e) (rev s)"

definition lower :: "char \<Rightarrow> char" where
  "lower c =
     (case map_of (zip ''ABCDEFGHIJKLMNOPQRSTUVWXYZ'' ''abcdefghijklmnopqrstuvwxyz'') c of
        None \<Rightarrow> c
      | Some d \<Rightarrow> d)"

definition basename :: "string \<Rightarrow> string" where
  "basename p = rev (takeWhile (\<lambda>c. c \<noteq> CHR ''/'') (rev p))"

definition splitext :: "string \<Rightarrow> string \<times> string" where
  "splitext f =
     (if CHR ''.'' \<notin> set f then (f, [])
      else let root = rev (tl (dropWhile (\<lambda>c. c \<noteq> CHR ''.'') (rev f)));
               ext = CHR ''.'' # rev (takeWhile (\<lambda>c. c \<noteq> CHR ''.'') (rev f))
           in if list_all (\<lambda>c. c = CHR ''.'') root then (f, []) else (root, ext))"

text \<open>
  Modelled from the spec: the file-name splitting of the interface library, which the
  generated output names rest on and which is not among the source files. A name is its
  last path component; its extension starts at the last dot, or is one of the double
  extensions of compressed images.
\<close>

definition special_extensions :: "string list" where
  "special_extensions = [''.nii.gz'', ''.tar.gz'', ''.niml.dset'']"

text \<open>
  Modelled from the spec: \<open>split_filename\<close> of the interface library (not among the source
  files), giving the name without directory and extension, and the extension.
\<close>

definition split_filename :: "string \<Rightarrow> string \<times> string" where
  "split_filename p =
     (let fname = basename p
      in case find (\<lambda>e. length e < length fname \<and>
                          map lower (drop (length fname - length e) fname) = e)
                special_extensions of
           Some e \<Rightarrow> (take (length fname - length e) fname, drop (length fname - length e) fname)
         | None \<Rightarrow> splitext fname)"

text \<open>
  Modelled from the spec: the typed parameters. The trait library (not among the source
  files) rejects a value that is not of the declared type when it is assigned; whether a
  file exists is outside the model.
\<close>

fun has_type :: "trait_type \<Rightarrow> value \<Rightarrow> bool"
  and has_types :: "trait_type list \<Rightarrow> value list \<Rightarrow> bool" where
  "has_type TFile (VStr s) = True"
| "has_type TInt (VInt i) = True"
| "has_type TBool (VBool b) = True"
| "has_type TListInt (VList vs) = list_all (\<lambda>v. case v of VInt i \<Rightarrow> True | _ \<Rightarrow> False) vs"
| "has_type (TEnum names) (VStr s) = (s \<in> set names)"
| "has_type (TTuple tys) (VTuple vs) = has_types tys vs"
| "has_type (TInputMultiObject ty) (VList vs) = list_all (has_type ty) vs"
| "has_type ty v = False"
| "has_types [] [] = True"
| "has_types (ty # tys) (v # vs) = (has_type ty v \<and> has_types tys vs)"
| "has_types tys vs = False"

text \<open>
  Modelled from the spec: which trait types hold lists, for the rendering of arguments.
\<close>

definition is_list_type :: "trait_type \<Rightarrow> bool" where
  "is_list_type ty = (case ty of TListInt \<Rightarrow> True | TInputMultiObject ty' \<Rightarrow> True | _ \<Rightarrow> False)"

text \<open>
  Modelled from the spec: the check of an assigned value by the trait library (not among
  the source files): a multi-object input wraps a single value in a list, a list keeps to
  \<open>minlen\<close> and \<open>maxlen\<close>, and a value of the wrong type raises \<open>TraitError\<close>.
\<close>

definition validate :: "trait \<Rightarrow> value \<Rightarrow> error + value" where
  "validate t v =
     (let v' = (case (ttype t, v) of
                  (TInputMultiObject ty, VList vs) \<Rightarrow> v
                | (TInputMultiObject ty, _) \<Rightarrow> VList [v]
                | _ \<Rightarrow> v);
          len_ok = (case v' of
                      VList vs \<Rightarrow>
                        (case minlen t of None \<Rightarrow> True | Some n \<Rightarrow> n \<le> length vs) \<and>
                        (case maxlen t of None \<Rightarrow> True | Some n \<Rightarrow> length vs \<le> n)
                    | _ \<Rightarrow> True)
      in if has_type (ttype t) v' \<and> len_ok then Inr v' else Inl (TraitError (tname t)))"

text \<open>
  Modelled from the spec: the declaration of an input, by name.
\<close>

definition lookup_trait :: "trait list \<Rightarrow> string \<Rightarrow> trait option" where
  "lookup_trait spec n = find (\<lambda>t. tname t = n) spec"

text \<open>
  Modelled from the spec: the assignment \<open>wrapper.inputs.name = value\<close> of the interface
  library (not among the source files). Inputs declared mutually exclusive with \<open>xor\<close> cannot
  both hold a value: assigning one while another is defined raises \<open>IOError\<close> and leaves the
  inputs as they were.
\<close>

definition set_input :: "trait list \<Rightarrow> string \<Rightarrow> value \<Rightarrow> (string \<rightharpoonup> value) \<Rightarrow>
    error + (string \<rightharpoonup> value)" where
  "set_input spec n v inputs =
     (case lookup_trait spec n of
        None \<Rightarrow> Inr (inputs(n \<mapsto> v))
      | Some t \<Rightarrow>
          bind_err (validate t v) (\<lambda>v'.
          if list_ex (\<lambda>other. other \<noteq> n \<and> inputs other \<noteq> None)
               (case xor_inputs t of None \<Rightarrow> [] | Some xs \<Rightarrow> xs)
          then Inl IOError
          else Inr (inputs(n \<mapsto> v'))))"

text \<open>
  Modelled from the spec: a sequence of assignments, stopping at the first that raises.
\<close>

fun set_inputs :: "trait list \<Rightarrow> (string \<times> value) list \<Rightarrow> (string \<rightharpoonup> value) \<Rightarrow>
    error + (string \<rightharpoonup> value)" where
  "set_inputs spec [] inputs = Inr inputs"
| "set_inputs spec ((n, v) # rest) inputs =
     bind_err (set_input spec n v inputs) (set_inputs spec rest)"

text \<open>
  Modelled from the spec: the check of mandatory inputs by the interface library (not
  among the source files), made when a command line is built: a mandatory input without a
  value raises \<open>ValueError\<close>, unless it is declared \<open>xor\<close> with an input that has one.
\<close>

definition check_mandatory_inputs :: "trait list \<Rightarrow> (string \<rightharpoonup> value) \<Rightarrow> error + unit" where
  "check_mandatory_inputs spec inputs =
     (if list_ex (\<lambda>t. mandatory t \<and> inputs (tname t) = None \<and>
            (case xor_inputs t of
               None \<Rightarrow> True
             | Some xs \<Rightarrow> xs \<noteq> [] \<and> list_all (\<lambda>f. inputs f = None) xs)) spec
      then Inl ValueError else Inr ())"

text \<open>
  Modelled from the spec: \<open>argstr % value\<close>, a failed conversion raising \<open>TypeError\<close>.
\<close>

definition fmt :: "string \<Rightarrow> value list \<Rightarrow> error + string" where
  "fmt a vs = (case pyformat a vs of None \<Rightarrow> Inl TypeError | Some s \<Rightarrow> Inr s)"

text \<open>
  Modelled from the spec: the default of an output name with \<open>name_source\<close> and
  \<open>name_template\<close>, computed by the interface library (not among the source files). An
  input that was given, and holds no \<open>%s\<close>, stands as it is. Else the template is
  filled with the name of the source input, without directory and extension, and with
  \<open>keep_extension\<close> the extension of the source is appended when the result has none.
  Without a value for the source there is no default. A source is looked up one level
  deep: every \<open>name_source\<close> of this module is \<open>in_file\<close>, which has no source of its own.
\<close>

definition filename_from_source :: "trait \<Rightarrow> (string \<rightharpoonup> value) \<Rightarrow> error + value option" where
  "filename_from_source t inputs =
     (let retval = inputs (tname t)
      in case retval of
           Some (VList vs) \<Rightarrow> Inl TypeError
         | Some (VTuple vs) \<Rightarrow> Inl TypeError
         | Some (VInt i) \<Rightarrow> Inl TypeError
         | Some (VBool b) \<Rightarrow> Inl TypeError
         | _ \<Rightarrow>
           (case (retval, name_source t) of
              (Some (VStr r), None) \<Rightarrow> Inr retval
            | (None, None) \<Rightarrow> Inr retval
            | (_, Some ns) \<Rightarrow>
                if (case retval of Some (VStr r) \<Rightarrow> \<not> contains_pct_s r | _ \<Rightarrow> False) then Inr retval
                else
                  let name_template =
                        (case retval of
                           Some (VStr r) \<Rightarrow> r
                         | _ \<Rightarrow> (case name_template t of
                                   None \<Rightarrow> ''%s_generated''
                                 | Some nt \<Rightarrow> if nt = [] then ''%s_generated'' else nt))
                  in case inputs ns of
                       None \<Rightarrow> Inr retval
                     | Some (VStr src) \<Rightarrow>
                         let (base, source_ext) = split_filename src
                         in bind_err (fmt name_template [VStr base]) (\<lambda>r.
                            let ext = snd (split_filename r)
                            in Inr (Some (VStr
                                 (if keep_extension t \<and> (ext \<noteq> [] \<or> source_ext \<noteq> [])
                                  then (if ext = [] \<and> source_ext \<noteq> [] then r @ source_ext else r)
                                  else r))))
                     | Some _ \<Rightarrow> Inl TypeError))"

text \<open>
  Modelled from the spec: the rendering of one input as an argument by the interface
  library (not among the source files). A flag (a boolean whose \<open>argstr\<close> has no
  conversion) is rendered when it is \<open>True\<close> and left out otherwise; a list is joined with
  \<open>sep\<close> (a blank by default) and put into \<open>argstr\<close>, or with an \<open>argstr\<close> that ends in
  \<open>...\<close> rendered once per element; a tuple fills the conversions of \<open>argstr\<close> in order;
  any other value fills the one conversion.
\<close>

definition format_arg :: "trait \<Rightarrow> value \<Rightarrow> error + string option" where
  "format_arg t v =
     (case argstr t of
        None \<Rightarrow> Inr None
      | Some a \<Rightarrow>
          if ttype t = TBool \<and> CHR ''%'' \<notin> set a
          then Inr (if v = VBool True then Some a else None)
          else if is_list_type (ttype t) then
            (case v of
               VList vs \<Rightarrow>
                 let s = (case sep t of None \<Rightarrow> '' '' | Some s \<Rightarrow> s)
                 in if endswith a ''...''
                    then (let a' = remove_dots a;
                              parts = map (\<lambda>el. pyformat a' [el]) vs
                          in if list_all (\<lambda>p. p \<noteq> None) parts
                             then Inr (Some (join s (map the parts)))
                             else Inl TypeError)
                    else if list_all (\<lambda>el. pystr el \<noteq> None) vs
                         then map_sum id Some (fmt a [VStr (join s (map (\<lambda>el. the (pystr el)) vs))])
                         else Inl TypeError
             | _ \<Rightarrow> Inl TypeError)
          else map_sum id Some (fmt a (case v of VTuple vs \<Rightarrow> vs | _ \<Rightarrow> [v])))"

text \<open>
  Modelled from the spec: the positioned arguments are kept by position, a later argument
  replacing an earlier one at the same position.
\<close>

definition dict_set :: "int \<Rightarrow> string \<Rightarrow> (int \<times> string) list \<Rightarrow> (int \<times> string) list" where
  "dict_set k v kvs = (k, v) # filter (\<lambda>kv. fst kv \<noteq> k) kvs"

text \<open>
  Modelled from the spec: one turn of the loop of the interface library (not among the
  source files) over the inputs that have an \<open>argstr\<close>: an input without a value (after
  the default of a generated name) is skipped, any other one is rendered and filed under
  its position, or appended to the unpositioned arguments.
\<close>

definition parse_trait :: "trait \<Rightarrow> (string \<rightharpoonup> value) \<Rightarrow>
    (int \<times> string) list \<times> string list \<times> (int \<times> string) list \<Rightarrow>
    error + ((int \<times> string) list \<times> string list \<times> (int \<times> string) list)" where
  "parse_trait t inputs acc =
     (case acc of (initial_args, all_args, final_args) \<Rightarrow>
     bind_err (if name_source t \<noteq> None then filename_from_source t inputs
               else if genfile t \<and> inputs (tname t) = None then Inl NotImplementedError
               else Inr (inputs (tname t))) (\<lambda>val.
     case val of
       None \<Rightarrow> Inr acc
     | Some v \<Rightarrow>
         bind_err (format_arg t v) (\<lambda>arg.
         case arg of
           None \<Rightarrow> Inr acc
         | Some a \<Rightarrow>
             (case position t of
                None \<Rightarrow> Inr (initial_args, all_args @ [a], final_args)
              | Some pos \<Rightarrow>
                  if 0 \<le> pos
                  then Inr (dict_set pos a initial_args, all_args, final_args)
                  else Inr (initial_args, all_args, dict_set pos a final_args)))))"

text \<open>
  Modelled from the spec: the loop itself, over the inputs in the order given.
\<close>

fun parse_traits :: "trait list \<Rightarrow> (string \<rightharpoonup> value) \<Rightarrow>
    (int \<times> string) list \<times> string list \<times> (int \<times> string) list \<Rightarrow>
    error + ((int \<times> string) list \<times> string list \<times> (int \<times> string) list)" where
  "parse_traits [] inputs acc = Inr acc"
| "parse_traits (t # ts) inputs acc = bind_err (parse_trait t inputs acc) (parse_traits ts inputs)"

text \<open>
  Modelled from the spec: the arguments of a command line. The inputs are visited in the
  order of their names; the arguments with a position \<open>0\<close> or more come first, by position,
  then the unpositioned ones, then those with a negative position, by position.
\<close>

definition parse_inputs :: "trait list \<Rightarrow> (string \<rightharpoonup> value) \<Rightarrow> error + string list" where
  "parse_inputs spec inputs =
     bind_err (parse_traits (sort_key tname (filter (\<lambda>t. argstr t \<noteq> None) spec)) inputs ([], [], []))
       (\<lambda>(initial_args, all_args, final_args).
          Inr (map snd (sort_key fst initial_args) @ all_args @ map snd (sort_key fst final_args)))"

text \<open>
  Modelled from the spec: the property \<open>cmdline\<close> of the interface library (not among the
  source files): the mandatory inputs are checked, then the program name and the
  arguments are joined with blanks.
\<close>

definition cmdline :: "interface \<Rightarrow> (string \<rightharpoonup> value) \<Rightarrow> error + string" where
  "cmdline w inputs =
     bind_err (check_mandatory_inputs (input_spec w) inputs) (\<lambda>u.
     bind_err (parse_inputs (input_spec w) inputs) (\<lambda>args.
     Inr (join '' '' (cmd w # args))))"

text \<open>
  Modelled from the spec: the translation of a set of typed parameters into a command
  line: a fresh wrapper holds its declared defaults, the parameters are assigned in the
  order given, and the command line is built.
\<close>

definition build :: "interface \<Rightarrow> (string \<times> value) list \<Rightarrow> error + string" where
  "build w assigns =
     bind_err (set_inputs (input_spec w) assigns (default_inputs (input_spec w))) (cmdline w)"

section \<open>Properties of the console script\<close>

lemma bind_err_Inr [simp]: "bind_err (Inr x) f = f x"
  and bind_err_Inl [simp]: "bind_err (Inl e) f = Inl e"
  by (simp_all add: bind_err_def)

lemma bind_err_eq_Inr: "bind_err r f = Inr y \<longleftrightarrow> (\<exists>x. r = Inr x \<and> f x = Inr y)"
  by (cases r) simp_all

lemma getitem_eq_Inr: "getitem s k = Inr v \<longleftrightarrow> obj s k = Some v"
  by (simp add: getitem_def split: option.splits)

lemma run_eq_Inr: "run run_ok w s = Inr s' \<longleftrightarrow> run_ok w \<and> s' = s\<lparr>ran := ran s @ [w]\<rparr>"
  by (auto simp: run_def)

lemma dw_recon_Inr:
  "dw_recon run_ok s = Inr s' \<longleftrightarrow>
     (\<exists>a b c r sd. obj s ''in_file'' = Some a \<and> obj s ''bvec'' = Some b \<and> obj s ''bval'' = Some c \<and>
        obj s ''results'' = Some r \<and> obj s ''seed'' = Some sd \<and> run_ok (recon_workflow a b c r) \<and>
        s' = (if sd = PyNone
              then s\<lparr>ran := ran s @ [recon_workflow a b c r],
                     obj := (obj s)(''odf'' \<mapsto> PyStr ''/Users/bsms9gep/tramp/wm.mif'',
                       ''seed'' \<mapsto> PyStr ''/Users/bsms9gep/tramp/brainmask.mif'')\<rparr>
              else s\<lparr>ran := ran s @ [recon_workflow a b c r],
                     obj := (obj s)(''odf'' \<mapsto> PyStr ''/Users/bsms9gep/tramp/wm.mif'')\<rparr>))"
  unfolding dw_recon_def bind_err_eq_Inr getitem_eq_Inr run_eq_Inr Let_def
  by (auto simp: setitem_def)

lemma set_existing_file_eq_Inr:
  "set_existing_file e n v = Inr v' \<longleftrightarrow> (\<exists>p. v = PyStr p \<and> e p \<and> v' = v)"
  by (cases v) (auto simp: set_existing_file_def)

lemma odf_track_Inr:
  "odf_track is_file run_ok s = Inr s' \<longleftrightarrow>
     (\<exists>a b r. obj s ''odf'' = Some (PyStr a) \<and> is_file (ran s) a \<and>
        obj s ''seed'' = Some (PyStr b) \<and> is_file (ran s) b \<and> obj s ''results'' = Some r \<and>
        run_ok (track_workflow (PyStr a) (PyStr b) r) \<and>
        s' = s\<lparr>ran := ran s @ [track_workflow (PyStr a) (PyStr b) r],
               obj := (obj s)(''tck'' \<mapsto> PyStr ''/Users/bsms9gep/tramp/tracking.tck'')\<rparr>)"
  unfolding odf_track_def bind_err_eq_Inr getitem_eq_Inr run_eq_Inr set_existing_file_eq_Inr
  by (auto simp: setitem_def)

lemma cli_obj:
  "obj (cli opts s) =
     (obj s)(''in_file'' \<mapsto> optval (opt_in_file opts), ''bvec'' \<mapsto> optval (opt_bvec opts),
       ''bval'' \<mapsto> optval (opt_bval opts), ''anat'' \<mapsto> optval (opt_anat opts),
       ''odf'' \<mapsto> optval (opt_odf opts), ''seed'' \<mapsto> optval (opt_seed opts),
       ''results'' \<mapsto> PyNode datasink)"
  and cli_ran: "ran (cli opts s) = ran s"
  by (simp_all add: cli_def setitem_def)

lemma map_of_commands:
  "map_of commands name = Some h \<longleftrightarrow>
     (name = ''recon'' \<and> h = (\<lambda>kw is_file. dw_recon)) \<or>
     (name = ''track'' \<and> h = (\<lambda>kw. odf_track)) \<or>
     (name = ''filter'' \<and> h = (\<lambda>kw is_file run_ok. tck_filter (kwarg kw ''tck'')))"
  by (auto simp: commands_def)

lemma dw_recon_after_cli:
  assumes "run_ok (recon_workflow (optval (opt_in_file opts)) (optval (opt_bvec opts))
             (optval (opt_bval opts)) (PyNode datasink))"
  shows "\<exists>s'. dw_recon run_ok (cli opts s) = Inr s'"
  unfolding dw_recon_Inr cli_obj using assms by simp

lemma resolve_all_handlers:
  "resolve_all calls = Inr hs \<Longrightarrow>
     \<forall>h \<in> set hs. h = (\<lambda>is_file. dw_recon) \<or> h = odf_track \<or>
       (\<exists>v. h = (\<lambda>is_file run_ok. tck_filter v))"
proof (induction calls arbitrary: hs)
  case Nil
  then show ?case by simp
next
  case (Cons c calls)
  obtain name kw where c: "c = (name, kw)" by (cases c)
  from Cons.prems obtain h hs' where h: "map_of commands name = Some h"
    and r: "resolve_all calls = Inr hs'" and hs: "hs = h kw # hs'"
    by (auto simp: c bind_err_eq_Inr split: option.splits)
  from h have "h kw = (\<lambda>is_file. dw_recon) \<or> h kw = odf_track \<or>
      (\<exists>v. h kw = (\<lambda>is_file run_ok. tck_filter v))"
    unfolding map_of_commands by auto
  with Cons.IH [OF r] show ?case by (simp add: hs)
qed

lemma sunk_inv_cli: "sunk_inv opts (cli opts \<lparr>obj = Map.empty, ran = []\<rparr>)"
  by (simp add: sunk_inv_def cli_obj cli_ran)

lemma dw_recon_InrD:
  assumes "dw_recon run_ok s = Inr s'"
  shows "ran s' = ran s @ [recon_workflow (the (obj s ''in_file'')) (the (obj s ''bvec''))
             (the (obj s ''bval'')) (the (obj s ''results''))]"
    and "obj s' ''odf'' = Some (PyStr ''/Users/bsms9gep/tramp/wm.mif'')"
    and "obj s' ''seed'' =
           (if obj s ''seed'' = Some PyNone
            then Some (PyStr ''/Users/bsms9gep/tramp/brainmask.mif'')
            else obj s ''seed'')"
    and "k \<noteq> ''odf'' \<Longrightarrow> k \<noteq> ''seed'' \<Longrightarrow> obj s' k = obj s k"
  using assms unfolding dw_recon_Inr by (auto split: if_splits)

lemma sunk_inv_dw_recon:
  assumes "sunk_inv opts s" and "dw_recon run_ok s = Inr s'"
  shows "sunk_inv opts s'"
proof -
  from dw_recon_InrD(1) [OF assms(2)] assms(1) obtain a b c
    where r: "ran s' = ran s @ [recon_workflow a b c (PyNode datasink)]"
    by (simp add: sunk_inv_def)
  have k: "obj s' ''results'' = obj s ''results''" "obj s' ''tck'' = obj s ''tck''"
    by (simp_all add: dw_recon_InrD(4) [OF assms(2)])
  show ?thesis
    unfolding sunk_inv_def k r
    using assms(1) dw_recon_InrD(2,3) [OF assms(2)]
    by (auto simp: sunk_inv_def recon_workflow_def)
qed

lemma sunk_inv_odf_track:
  assumes "sunk_inv opts s" and "odf_track is_file run_ok s = Inr s'"
  shows "sunk_inv opts s'"
proof -
  from assms(2) obtain a b r where r: "obj s ''results'' = Some r"
    and s': "s' = s\<lparr>ran := ran s @ [track_workflow (PyStr a) (PyStr b) r],
               obj := (obj s)(''tck'' \<mapsto> PyStr ''/Users/bsms9gep/tramp/tracking.tck'')\<rparr>"
    unfolding odf_track_Inr by blast
  from r assms(1) have "r = PyNode datasink"
    by (simp add: sunk_inv_def)
  with assms(1) show ?thesis
    unfolding s' by (auto simp: sunk_inv_def track_workflow_def)
qed

lemma sunk_inv_invoke_all:
  assumes "\<forall>h \<in> set hs. h = (\<lambda>is_file. dw_recon) \<or> h = odf_track \<or>
      (\<exists>v. h = (\<lambda>is_file run_ok. tck_filter v))"
    and "sunk_inv opts s" and "invoke_all is_file run_ok hs s = Inr s'"
  shows "sunk_inv opts s'"
  using assms
proof (induction hs arbitrary: s)
  case Nil
  then show ?case by simp
next
  case (Cons h hs)
  from Cons.prems(3) obtain s1 where s1: "h is_file run_ok s = Inr s1"
    and rest: "invoke_all is_file run_ok hs s1 = Inr s'"
    by (auto simp: bind_err_eq_Inr)
  from Cons.prems(1) have "h = (\<lambda>is_file. dw_recon) \<or> h = odf_track \<or>
      (\<exists>v. h = (\<lambda>is_file run_ok. tck_filter v))"
    by simp
  with s1 Cons.prems(2) have "sunk_inv opts s1"
    by (auto simp: tck_filter_def dest: sunk_inv_dw_recon sunk_inv_odf_track)
  with Cons.IH [OF _ _ rest] Cons.prems(1) show ?case by simp
qed

lemma sinks_into_workflows:
  "sinks_into sink (recon_workflow a b c sink)"
  "sinks_into sink (track_workflow x y sink)"
  by (simp_all add: sinks_into_def recon_workflow_def track_workflow_def)

lemma wf_name_workflows:
  "wf_name (recon_workflow a b c sink) = ''recon''"
  "wf_name (track_workflow x y sink) = ''track''"
  by (simp_all add: recon_workflow_def track_workflow_def)

lemma handler_runs:
  assumes "map_of commands name = Some h" and "h kw is_file run_ok s = Inr s1"
    and "obj s ''results'' = Some sink"
  shows "obj s1 ''results'' = Some sink \<and>
     (\<exists>ws. ran s1 = ran s @ ws \<and> map wf_name ws = filter (\<lambda>n. n \<noteq> ''filter'') [name] \<and>
        (\<forall>w \<in> set ws. sinks_into sink w))"
proof -
  from assms(1) consider
      (recon) "name = ''recon''" "h = (\<lambda>kw is_file. dw_recon)"
    | (track) "name = ''track''" "h = (\<lambda>kw. odf_track)"
    | (filter) "name = ''filter''" "h = (\<lambda>kw is_file run_ok. tck_filter (kwarg kw ''tck''))"
    unfolding map_of_commands by blast
  then show ?thesis
  proof cases
    case recon
    with assms(2) have d: "dw_recon run_ok s = Inr s1" by simp
    have "ran s1 = ran s @ [recon_workflow (the (obj s ''in_file'')) (the (obj s ''bvec''))
        (the (obj s ''bval'')) sink]"
      using dw_recon_InrD(1) [OF d] assms(3) by simp
    moreover have "obj s1 ''results'' = Some sink"
      using dw_recon_InrD(4) [OF d, of "''results''"] assms(3) by simp
    ultimately show ?thesis
      by (simp add: recon sinks_into_workflows wf_name_workflows)
  next
    case track
    with assms(2) have "odf_track is_file run_ok s = Inr s1" by simp
    then obtain a b where "s1 = s\<lparr>ran := ran s @ [track_workflow (PyStr a) (PyStr b) sink],
        obj := (obj s)(''tck'' \<mapsto> PyStr ''/Users/bsms9gep/tramp/tracking.tck'')\<rparr>"
      unfolding odf_track_Inr using assms(3) by auto
    then show ?thesis
      using assms(3) by (simp add: track sinks_into_workflows wf_name_workflows)
  next
    case filter
    with assms(2) have "s1 = s" by (simp add: tck_filter_def)
    then show ?thesis
      using assms(3) by (simp add: filter)
  qed
qed

lemma invoke_all_runs:
  assumes "resolve_all calls = Inr hs" and "invoke_all is_file run_ok hs s = Inr s'"
    and "obj s ''results'' = Some sink"
  shows "\<exists>ws. ran s' = ran s @ ws \<and>
     map wf_name ws = filter (\<lambda>n. n \<noteq> ''filter'') (map fst calls) \<and>
     (\<forall>w \<in> set ws. sinks_into sink w)"
  using assms
proof (induction calls arbitrary: hs s)
  case Nil
  then show ?case by simp
next
  case (Cons c calls)
  obtain name kw where c: "c = (name, kw)" by (cases c)
  from Cons.prems(1) obtain h hs' where h: "map_of commands name = Some h"
    and r: "resolve_all calls = Inr hs'" and hs: "hs = h kw # hs'"
    by (auto simp: c bind_err_eq_Inr split: option.splits)
  from Cons.prems(2) obtain s1 where s1: "h kw is_file run_ok s = Inr s1"
    and rest: "invoke_all is_file run_ok hs' s1 = Inr s'"
    by (auto simp: hs bind_err_eq_Inr)
  from handler_runs [OF h s1 Cons.prems(3)] obtain ws1
    where k: "obj s1 ''results'' = Some sink" and w1: "ran s1 = ran s @ ws1"
      and n1: "map wf_name ws1 = filter (\<lambda>n. n \<noteq> ''filter'') [name]"
      and p1: "\<forall>w \<in> set ws1. sinks_into sink w"
    by blast
  from Cons.IH [OF r rest k] obtain ws2
    where w2: "ran s' = ran s1 @ ws2"
      and n2: "map wf_name ws2 = filter (\<lambda>n. n \<noteq> ''filter'') (map fst calls)"
      and p2: "\<forall>w \<in> set ws2. sinks_into sink w"
    by blast
  have "ran s' = ran s @ (ws1 @ ws2)" by (simp add: w1 w2)
  moreover have "map wf_name (ws1 @ ws2) = filter (\<lambda>n. n \<noteq> ''filter'') (map fst (c # calls))"
    using n1 n2 by (simp add: c)
  moreover have "\<forall>w \<in> set (ws1 @ ws2). sinks_into sink w"
    using p1 p2 by auto
  ultimately show ?case by blast
qed

text \<open>
  Claim C2. The group is chained and registers exactly the subcommands \<open>recon\<close>, \<open>track\<close>
  and \<open>filter\<close>. Paths pass through the shared dictionary. In every state, \<open>track\<close> returns
  exactly when \<open>odf\<close> and \<open>seed\<close> hold paths of existing files, the sink is there and the
  engine runs the workflow, and the tractography node it runs has those two entries as
  \<open>in_file\<close> and \<open>seed_image\<close>. After \<open>recon\<close> has run, \<open>odf\<close> and \<open>seed\<close> hold paths; when
  these name files by then, a \<open>track\<close> that follows gets exactly them.
\<close>

theorem recon_track_pass_paths:
  assumes "run_ok (recon_workflow (optval (opt_in_file opts)) (optval (opt_bvec opts))
             (optval (opt_bval opts)) (PyNode datasink))"
    and "is_file [recon_workflow (optval (opt_in_file opts)) (optval (opt_bvec opts))
             (optval (opt_bval opts)) (PyNode datasink)] ''/Users/bsms9gep/tramp/wm.mif''"
    and "is_file [recon_workflow (optval (opt_in_file opts)) (optval (opt_bvec opts))
             (optval (opt_bval opts)) (PyNode datasink)]
           (case opt_seed opts of
              None \<Rightarrow> ''/Users/bsms9gep/tramp/brainmask.mif'' | Some p \<Rightarrow> p)"
    and "run_ok (track_workflow (PyStr ''/Users/bsms9gep/tramp/wm.mif'')
             (PyStr (case opt_seed opts of
                       None \<Rightarrow> ''/Users/bsms9gep/tramp/brainmask.mif'' | Some p \<Rightarrow> p))
             (PyNode datasink))"
  shows "chain \<and> map fst commands = [''recon'', ''track'', ''filter''] \<and>
     (odf_track is_file run_ok s = Inr s' \<longleftrightarrow>
        (\<exists>a b r. obj s ''odf'' = Some (PyStr a) \<and> is_file (ran s) a \<and>
           obj s ''seed'' = Some (PyStr b) \<and> is_file (ran s) b \<and>
           obj s ''results'' = Some r \<and>
           run_ok \<lparr>wf_name = ''track'',
            connections =
              [(Node Tractography ''track'' [(''in_file'', PyStr a), (''seed_image'', PyStr b)], r,
                [(''out_file'', ''@tck'')])]\<rparr> \<and>
           s' = s\<lparr>ran := ran s @ [\<lparr>wf_name = ''track'',
            connections =
              [(Node Tractography ''track'' [(''in_file'', PyStr a), (''seed_image'', PyStr b)], r,
                [(''out_file'', ''@tck'')])]\<rparr>],
                  obj := (obj s)(''tck'' \<mapsto> PyStr ''/Users/bsms9gep/tramp/tracking.tck'')\<rparr>)) \<and>
     (\<exists>s1. main is_file run_ok opts [(''recon'', kw)] = Inr s1 \<and>
        obj s1 ''odf'' = Some (PyStr ''/Users/bsms9gep/tramp/wm.mif'') \<and>
        obj s1 ''seed'' = Some (PyStr (case opt_seed opts of
                       None \<Rightarrow> ''/Users/bsms9gep/tramp/brainmask.mif'' | Some p \<Rightarrow> p)) \<and>
        (\<exists>s2 w1 sink links. main is_file run_ok opts [(''recon'', kw), (''track'', kw')] = Inr s2 \<and>
           ran s2 = [w1, \<lparr>wf_name = ''track'',
             connections = [(Node Tractography ''track''
               [(''in_file'', the (obj s1 ''odf'')), (''seed_image'', the (obj s1 ''seed''))],
               sink, links)]\<rparr>]))"
proof -
  let ?s0 = "cli opts \<lparr>obj = Map.empty, ran = []\<rparr>"
  let ?w1 = "recon_workflow (optval (opt_in_file opts)) (optval (opt_bvec opts))
             (optval (opt_bval opts)) (PyNode datasink)"
  let ?p = "case opt_seed opts of
               None \<Rightarrow> ''/Users/bsms9gep/tramp/brainmask.mif'' | Some p \<Rightarrow> p"
  let ?sd = "PyStr ?p"
  obtain s1 where s1: "dw_recon run_ok ?s0 = Inr s1"
    using dw_recon_after_cli [of run_ok opts] assms(1) by blast
  have odf: "obj s1 ''odf'' = Some (PyStr ''/Users/bsms9gep/tramp/wm.mif'')"
    by (rule dw_recon_InrD(2) [OF s1])
  have seed: "obj s1 ''seed'' = Some ?sd"
    unfolding dw_recon_InrD(3) [OF s1] by (simp add: cli_obj optval_def split: option.splits)
  have res: "obj s1 ''results'' = Some (PyNode datasink)"
    unfolding dw_recon_InrD(4) [OF s1, of "''results''", simplified] by (simp add: cli_obj)
  have ran1: "ran s1 = [?w1]"
    unfolding dw_recon_InrD(1) [OF s1] by (simp add: cli_ran cli_obj)
  have m1: "main is_file run_ok opts [(''recon'', kw)] = Inr s1"
    by (simp add: main_def commands_def s1)
  have t: "odf_track is_file run_ok s1 =
      Inr (s1\<lparr>ran := ran s1 @ [track_workflow (PyStr ''/Users/bsms9gep/tramp/wm.mif'') ?sd (PyNode datasink)],
               obj := (obj s1)(''tck'' \<mapsto> PyStr ''/Users/bsms9gep/tramp/tracking.tck'')\<rparr>)"
    unfolding odf_track_Inr using odf seed res assms(2,3,4) by (simp add: ran1)
  have m2: "main is_file run_ok opts [(''recon'', kw), (''track'', kw')] =
      Inr (s1\<lparr>ran := ran s1 @ [track_workflow (PyStr ''/Users/bsms9gep/tramp/wm.mif'') ?sd (PyNode datasink)],
               obj := (obj s1)(''tck'' \<mapsto> PyStr ''/Users/bsms9gep/tramp/tracking.tck'')\<rparr>)"
    by (simp add: main_def commands_def s1 t)
  have names: "chain \<and> map fst commands = [''recon'', ''track'', ''filter'']"
    by (simp add: chain_def commands_def)
  have reads: "odf_track is_file run_ok s = Inr s' \<longleftrightarrow>
        (\<exists>a b r. obj s ''odf'' = Some (PyStr a) \<and> is_file (ran s) a \<and>
           obj s ''seed'' = Some (PyStr b) \<and> is_file (ran s) b \<and>
           obj s ''results'' = Some r \<and>
           run_ok \<lparr>wf_name = ''track'',
            connections =
              [(Node Tractography ''track'' [(''in_file'', PyStr a), (''seed_image'', PyStr b)], r,
                [(''out_file'', ''@tck'')])]\<rparr> \<and>
           s' = s\<lparr>ran := ran s @ [\<lparr>wf_name = ''track'',
            connections =
              [(Node Tractography ''track'' [(''in_file'', PyStr a), (''seed_image'', PyStr b)], r,
                [(''out_file'', ''@tck'')])]\<rparr>],
                  obj := (obj s)(''tck'' \<mapsto> PyStr ''/Users/bsms9gep/tramp/tracking.tck'')\<rparr>)"
    unfolding odf_track_Inr track_workflow_def ..
  have chain2: "\<exists>s2 w1 sink links. main is_file run_ok opts [(''recon'', kw), (''track'', kw')] = Inr s2 \<and>
           ran s2 = [w1, \<lparr>wf_name = ''track'',
             connections = [(Node Tractography ''track''
               [(''in_file'', the (obj s1 ''odf'')), (''seed_image'', the (obj s1 ''seed''))],
               sink, links)]\<rparr>]"
    by (simp add: m2 ran1 odf seed track_workflow_def)
  have "\<exists>s1. main is_file run_ok opts [(''recon'', kw)] = Inr s1 \<and>
        obj s1 ''odf'' = Some (PyStr ''/Users/bsms9gep/tramp/wm.mif'') \<and>
        obj s1 ''seed'' = Some ?sd \<and>
        (\<exists>s2 w1 sink links. main is_file run_ok opts [(''recon'', kw), (''track'', kw')] = Inr s2 \<and>
           ran s2 = [w1, \<lparr>wf_name = ''track'',
             connections = [(Node Tractography ''track''
               [(''in_file'', the (obj s1 ''odf'')), (''seed_image'', the (obj s1 ''seed''))],
               sink, links)]\<rparr>])"
    by (rule exI [of _ s1]) (intro conjI m1 odf seed chain2)
  with names reads show ?thesis
    by (intro conjI) (rule conjunct1, assumption, rule conjunct2, assumption, assumption+)
qed

theorem recon_track_pass_paths_witness:
  "\<exists>s2 w1 w2. main (\<lambda>ws p. True) (\<lambda>w. True) \<lparr>opt_in_file = Some ''dwi.nii'',
            opt_bvec = Some ''bvecs'', opt_bval = Some ''bvals'', opt_anat = None,
            opt_odf = None, opt_seed = None\<rparr>
            [(''recon'', []), (''track'', [])] = Inr s2 \<and>
        ran s2 = [w1, w2] \<and> wf_name w2 = ''track''"
  using recon_track_pass_paths [of "\<lambda>w. True"
      "\<lparr>opt_in_file = Some ''dwi.nii'', opt_bvec = Some ''bvecs'',
            opt_bval = Some ''bvals'', opt_anat = None, opt_odf = None, opt_seed = None\<rparr>"
      "\<lambda>ws p. True" "\<lparr>obj = Map.empty, ran = []\<rparr>" "\<lparr>obj = Map.empty, ran = []\<rparr>" "[]" "[]"]
  by auto

text \<open>
  Claim C8. After \<open>recon\<close> has run, \<open>odf\<close> holds the fixed path whatever it held before
  (so a value given with \<open>--odf\<close> is discarded), and \<open>seed\<close> holds the fixed brain mask path
  only if it was \<open>None\<close>; any other value of \<open>seed\<close> is kept.
\<close>

theorem recon_overwrites_odf_keeps_seed:
  assumes "dw_recon run_ok s = Inr s'"
  shows "obj s' ''odf'' = Some (PyStr ''/Users/bsms9gep/tramp/wm.mif'') \<and>
         obj s' ''seed'' =
           (if obj s ''seed'' = Some PyNone
            then Some (PyStr ''/Users/bsms9gep/tramp/brainmask.mif'')
            else obj s ''seed'')"
  using assms unfolding dw_recon_Inr by auto

theorem recon_overwrites_odf_keeps_seed_witness:
  "\<exists>s'. dw_recon (\<lambda>w. True)
          (cli \<lparr>opt_in_file = Some ''dwi.nii'', opt_bvec = Some ''bvecs'', opt_bval = Some ''bvals'',
                opt_anat = None, opt_odf = Some ''my_odf.mif'', opt_seed = Some ''my_seed.mif''\<rparr>
               \<lparr>obj = Map.empty, ran = []\<rparr>) = Inr s' \<and>
        obj s' ''odf'' = Some (PyStr ''/Users/bsms9gep/tramp/wm.mif'') \<and>
        obj s' ''seed'' = Some (PyStr ''my_seed.mif'')"
proof -
  let ?opts = "\<lparr>opt_in_file = Some ''dwi.nii'', opt_bvec = Some ''bvecs'', opt_bval = Some ''bvals'',
                opt_anat = None, opt_odf = Some ''my_odf.mif'', opt_seed = Some ''my_seed.mif''\<rparr>"
  let ?s = "cli ?opts \<lparr>obj = Map.empty, ran = []\<rparr>"
  obtain s' where h: "dw_recon (\<lambda>w. True) ?s = Inr s'"
    using dw_recon_after_cli [of "\<lambda>w. True" ?opts] by blast
  have "obj ?s ''seed'' = Some (PyStr ''my_seed.mif'')"
    by (simp add: cli_obj optval_def)
  with recon_overwrites_odf_keeps_seed [OF h] h show ?thesis
    by auto
qed

text \<open>
  Claim C9. Whatever the options and the chain of subcommands, the sink stays the data
  sink made at group setup, with base directory \<open>/Users/bsms9gep/\<close> and container
  \<open>tramp\<close>. The workflows that ran are, in order, one for each \<open>recon\<close> and \<open>track\<close> of the
  chain, and each has exactly one connection, which carries its outputs (the two of the
  reconstruction, the tractogram of the tracking) into that sink. The three paths that
  \<open>recon\<close> and \<open>track\<close> record lie under the sink's directory.
\<close>

theorem outputs_sunk_under_fixed_directory:
  assumes "main is_file run_ok opts calls = Inr s"
  shows "sunk_inv opts s \<and>
         map wf_name (ran s) = filter (\<lambda>n. n \<noteq> ''filter'') (map fst calls) \<and>
         (\<forall>w \<in> set (ran s). sinks_into (PyNode datasink) w) \<and>
         map_of (node_inputs datasink) ''base_directory'' = Some (PyStr ''/Users/bsms9gep/'') \<and>
         map_of (node_inputs datasink) ''container'' = Some (PyStr ''tramp'') \<and>
         sink_dir datasink = ''/Users/bsms9gep/tramp/'' \<and>
         prefix (sink_dir datasink) ''/Users/bsms9gep/tramp/wm.mif'' \<and>
         prefix (sink_dir datasink) ''/Users/bsms9gep/tramp/brainmask.mif'' \<and>
         prefix (sink_dir datasink) ''/Users/bsms9gep/tramp/tracking.tck''"
proof -
  let ?s0 = "cli opts \<lparr>obj = Map.empty, ran = []\<rparr>"
  from assms obtain hs where r: "resolve_all calls = Inr hs"
    and i: "invoke_all is_file run_ok hs ?s0 = Inr s"
    by (auto simp: main_def bind_err_eq_Inr)
  have inv: "sunk_inv opts s"
    using sunk_inv_invoke_all [OF resolve_all_handlers [OF r] sunk_inv_cli i] .
  have "obj ?s0 ''results'' = Some (PyNode datasink)"
    by (simp add: cli_obj)
  from invoke_all_runs [OF r i this]
  have runs: "map wf_name (ran s) = filter (\<lambda>n. n \<noteq> ''filter'') (map fst calls)"
    and sunk: "\<forall>w \<in> set (ran s). sinks_into (PyNode datasink) w"
    by (auto simp: cli_ran)
  from inv runs sunk show ?thesis
    by (simp add: sink_dir_def datasink_def)
qed

theorem outputs_sunk_under_fixed_directory_witness:
  "\<exists>s. main (\<lambda>ws p. True) (\<lambda>w. True) \<lparr>opt_in_file = Some ''dwi.nii'', opt_bvec = Some ''bvecs'',
            opt_bval = Some ''bvals'', opt_anat = None, opt_odf = None,
            opt_seed = Some ''/data/seed.mif''\<rparr>
            [(''recon'', []), (''track'', []), (''filter'', [(''tck'', ''x.tck'')])] = Inr s \<and>
       map wf_name (ran s) = [''recon'', ''track''] \<and>
       list_all (sinks_into (PyNode datasink)) (ran s) \<and>
       obj s ''tck'' = Some (PyStr ''/Users/bsms9gep/tramp/tracking.tck'')"
proof -
  let ?opts = "\<lparr>opt_in_file = Some ''dwi.nii'', opt_bvec = Some ''bvecs'',
            opt_bval = Some ''bvals'', opt_anat = None, opt_odf = None,
            opt_seed = Some ''/data/seed.mif''\<rparr>"
  let ?calls = "[(''recon'', []), (''track'', []), (''filter'', [(''tck'', ''x.tck'')])]"
  have "\<exists>s. main (\<lambda>ws p. True) (\<lambda>w. True) ?opts ?calls = Inr s \<and>
          obj s ''tck'' = Some (PyStr ''/Users/bsms9gep/tramp/tracking.tck'')"
    by (simp add: main_def commands_def cli_def dw_recon_def odf_track_def tck_filter_def
        getitem_def setitem_def run_def optval_def set_existing_file_def)
  then obtain s where m: "main (\<lambda>ws p. True) (\<lambda>w. True) ?opts ?calls = Inr s"
    and t: "obj s ''tck'' = Some (PyStr ''/Users/bsms9gep/tramp/tracking.tck'')"
    by blast
  from outputs_sunk_under_fixed_directory [OF m]
  have "map wf_name (ran s) = [''recon'', ''track'']"
    and "list_all (sinks_into (PyNode datasink)) (ran s)"
    by (simp_all add: list_all_iff)
  with m t show ?thesis
    by (intro exI [of _ s]) simp
qed

text \<open>
  Claim C10. \<open>filter\<close> does nothing: for every state and every value of \<open>--tck\<close> it returns
  the state it was given, so the dictionary is unchanged and no workflow is run; the same
  holds for the callback registered under the name \<open>filter\<close>.
\<close>

theorem tck_filter_noop:
  "tck_filter tck s = Inr s \<and>
   (case map_of commands ''filter'' of
      None \<Rightarrow> Inl (UsageError ''filter'')
    | Some h \<Rightarrow> h kw is_file run_ok s) = Inr s"
  by (simp add: tck_filter_def commands_def)

section \<open>Properties of the wrappers\<close>

lemma abspath_of_VStr [simp]: "abspath_of abspath (Some (VStr p)) = Inr (VStr (abspath p))"
  by (simp add: abspath_of_def)

text \<open>
  Claim C5. When \<open>wm_file\<close> holds a path (by default \<open>wm.txt\<close>), the located outputs are
  the absolute path of \<open>wm_file\<close>, and the absolute path of \<open>gm_file\<close> (of \<open>csf_file\<close>)
  exactly when that input was given; nothing else is located.
\<close>

theorem ResponseSD_list_outputs_located:
  assumes "inputs ''wm_file'' = Some (VStr wm)"
    and "inputs ''gm_file'' = map_option VStr gm"
    and "inputs ''csf_file'' = map_option VStr csf"
  shows "\<exists>outputs. ResponseSD_list_outputs abspath inputs = Inr outputs \<and>
           outputs ''wm_file'' = Some (VStr (abspath wm)) \<and>
           outputs ''gm_file'' = map_option (\<lambda>p. VStr (abspath p)) gm \<and>
           outputs ''csf_file'' = map_option (\<lambda>p. VStr (abspath p)) csf \<and>
           dom outputs \<subseteq> {''wm_file'', ''gm_file'', ''csf_file''} \<and>
           default_inputs ResponseSDInputSpec ''wm_file'' = Some (VStr ''wm.txt'')"
proof -
  have d: "default_inputs ResponseSDInputSpec ''wm_file'' = Some (VStr ''wm.txt'')"
    by (simp add: default_inputs_def ResponseSDInputSpec_def MRTrix3BaseInputSpec_def mk_trait_def)
  show ?thesis
    by (cases gm; cases csf) (simp_all add: ResponseSD_list_outputs_def assms d)
qed

theorem ResponseSD_list_outputs_located_witness:
  "\<exists>outputs. ResponseSD_list_outputs (\<lambda>p. ''/work/'' @ p)
       ((default_inputs ResponseSDInputSpec)(''gm_file'' \<mapsto> VStr ''gm.txt'')) = Inr outputs \<and>
     outputs ''wm_file'' = Some (VStr ''/work/wm.txt'') \<and>
     outputs ''gm_file'' = Some (VStr ''/work/gm.txt'') \<and>
     outputs ''csf_file'' = None"
proof -
  let ?inputs = "(default_inputs ResponseSDInputSpec)(''gm_file'' \<mapsto> VStr ''gm.txt'')"
  have "?inputs ''wm_file'' = Some (VStr ''wm.txt'')"
    and "?inputs ''gm_file'' = map_option VStr (Some ''gm.txt'')"
    and "?inputs ''csf_file'' = map_option VStr None"
    by (simp_all add: default_inputs_def ResponseSDInputSpec_def MRTrix3BaseInputSpec_def
        mk_trait_def)
  from ResponseSD_list_outputs_located [OF this, of "\<lambda>p. ''/work/'' @ p"]
  obtain outputs where "ResponseSD_list_outputs (\<lambda>p. ''/work/'' @ p) ?inputs = Inr outputs"
    and "outputs ''wm_file'' = Some (VStr (''/work/'' @ ''wm.txt''))"
    and "outputs ''gm_file'' = map_option (\<lambda>p. VStr (''/work/'' @ p)) (Some ''gm.txt'')"
    and "outputs ''csf_file'' = map_option (\<lambda>p. VStr (''/work/'' @ p)) None"
    by blast
  then show ?thesis
    by (intro exI [of _ outputs]) simp
qed

lemma prefix_join: "join s (x # xs) = x \<or> prefix (x @ s) (join s (x # xs))"
  by (cases xs) simp_all

lemma cmdline_starts_with_cmd:
  assumes "cmdline w inputs = Inr l"
  shows "l = cmd w \<or> prefix (cmd w @ '' '') l"
proof -
  from assms obtain args where "l = join '' '' (cmd w # args)"
    by (auto simp: cmdline_def bind_err_eq_Inr)
  then show ?thesis
    using prefix_join [of "'' ''" "cmd w" args] by simp
qed

lemma abspath_of_eq_Inr:
  "abspath_of abspath x = Inr v \<longleftrightarrow> (\<exists>p. x = Some (VStr p) \<and> v = VStr (abspath p))"
proof (cases x)
  case None
  then show ?thesis by (simp add: abspath_of_def)
next
  case (Some y)
  then show ?thesis by (cases y) (auto simp: abspath_of_def)
qed

lemma ResponseSD_list_outputs_only_paths:
  assumes "ResponseSD_list_outputs abspath inputs = Inr outputs" and "outputs k = Some v"
  shows "\<exists>p. inputs k = Some (VStr p) \<and> v = VStr (abspath p)"
proof -
  from assms(1) obtain wm o1 where wm: "abspath_of abspath (inputs ''wm_file'') = Inr wm"
    and o1: "(if inputs ''gm_file'' \<noteq> None
              then bind_err (abspath_of abspath (inputs ''gm_file''))
                     (\<lambda>gm. Inr ([''wm_file'' \<mapsto> wm, ''gm_file'' \<mapsto> gm]))
              else Inr [''wm_file'' \<mapsto> wm]) = Inr o1"
    and o2: "(if inputs ''csf_file'' \<noteq> None
              then bind_err (abspath_of abspath (inputs ''csf_file''))
                     (\<lambda>csf. Inr (o1(''csf_file'' \<mapsto> csf)))
              else Inr o1) = Inr outputs"
    by (auto simp: ResponseSD_list_outputs_def bind_err_eq_Inr Let_def)
  from o1 have p1: "\<And>k v. o1 k = Some v \<Longrightarrow> \<exists>p. inputs k = Some (VStr p) \<and> v = VStr (abspath p)"
    using wm by (auto simp: bind_err_eq_Inr abspath_of_eq_Inr split: if_splits)
  from o2 assms(2) show ?thesis
    using p1 by (auto simp: bind_err_eq_Inr abspath_of_eq_Inr split: if_splits)
qed

lemma out_file_list_outputs_only_paths:
  assumes "ACTPrepareFSL_list_outputs abspath inputs = Inr outputs \<or>
      ReplaceFSwithFIRST_list_outputs abspath inputs = Inr outputs"
    and "outputs k = Some v"
  shows "\<exists>p. inputs k = Some (VStr p) \<and> v = VStr (abspath p)"
  using assms
  by (auto simp: ACTPrepareFSL_list_outputs_def ReplaceFSwithFIRST_list_outputs_def
      bind_err_eq_Inr abspath_of_eq_Inr split: if_splits)

text \<open>
  Claim C7. Each wrapper names one fixed external program: \<open>dwidenoise\<close>, \<open>mrdegibbs\<close>,
  \<open>dwibiascorrect\<close>, \<open>dwi2response\<close> and \<open>act_anat_prepare_fsl\<close> (and
  \<open>fs_parc_replace_sgm_first\<close> for the sixth class of the module), and whatever its inputs,
  a command line built for it is that name, followed by arguments. The only methods the
  wrappers define themselves are three \<open>_list_outputs\<close>, and for every input each of them
  gives nothing but absolute paths, each the path of the input of the same name; for
  \<open>ACTPrepareFSL\<close> that is by default the absolute path of \<open>act_5tt.mif\<close>, for
  \<open>ReplaceFSwithFIRST\<close> that of \<open>aparc+first.mif\<close>.
\<close>

theorem wrappers_name_fixed_binaries:
  "map (\<lambda>(n, w). (n, cmd w)) wrappers =
     [(''DWIDenoise'', ''dwidenoise''), (''MRDeGibbs'', ''mrdegibbs''),
      (''DWIBiasCorrect'', ''dwibiascorrect''), (''ResponseSD'', ''dwi2response''),
      (''ACTPrepareFSL'', ''act_anat_prepare_fsl''),
      (''ReplaceFSwithFIRST'', ''fs_parc_replace_sgm_first'')] \<and>
   ((n, w) \<in> set wrappers \<and> cmdline w inputs = Inr l \<longrightarrow>
      l = cmd w \<or> prefix (cmd w @ '' '') l) \<and>
   map fst list_outputs = [''ResponseSD'', ''ACTPrepareFSL'', ''ReplaceFSwithFIRST''] \<and>
   ((m, f) \<in> set list_outputs \<and> f abspath inputs' = Inr outputs \<and> outputs k = Some v \<longrightarrow>
      (\<exists>p. inputs' k = Some (VStr p) \<and> v = VStr (abspath p))) \<and>
   default_inputs ACTPrepareFSLInputSpec ''out_file'' = Some (VStr ''act_5tt.mif'') \<and>
   ACTPrepareFSL_list_outputs abspath (default_inputs ACTPrepareFSLInputSpec) =
     Inr (Map.empty(''out_file'' \<mapsto> VStr (abspath ''act_5tt.mif''))) \<and>
   ReplaceFSwithFIRST_list_outputs abspath (default_inputs ReplaceFSwithFIRSTInputSpec) =
     Inr (Map.empty(''out_file'' \<mapsto> VStr (abspath ''aparc+first.mif'')))"
proof -
  have names: "map (\<lambda>(n, w). (n, cmd w)) wrappers =
     [(''DWIDenoise'', ''dwidenoise''), (''MRDeGibbs'', ''mrdegibbs''),
      (''DWIBiasCorrect'', ''dwibiascorrect''), (''ResponseSD'', ''dwi2response''),
      (''ACTPrepareFSL'', ''act_anat_prepare_fsl''),
      (''ReplaceFSwithFIRST'', ''fs_parc_replace_sgm_first'')]"
    by (simp add: wrappers_def DWIDenoise_def MRDeGibbs_def DWIBiasCorrect_def ResponseSD_def
        ACTPrepareFSL_def ReplaceFSwithFIRST_def)
  have starts: "(n, w) \<in> set wrappers \<and> cmdline w inputs = Inr l \<longrightarrow>
      l = cmd w \<or> prefix (cmd w @ '' '') l"
    using cmdline_starts_with_cmd by blast
  have methods: "map fst list_outputs = [''ResponseSD'', ''ACTPrepareFSL'', ''ReplaceFSwithFIRST'']"
    by (simp add: list_outputs_def)
  have paths: "(m, f) \<in> set list_outputs \<and> f abspath inputs' = Inr outputs \<and> outputs k = Some v \<longrightarrow>
      (\<exists>p. inputs' k = Some (VStr p) \<and> v = VStr (abspath p))"
    using ResponseSD_list_outputs_only_paths [of abspath inputs' outputs k v]
      out_file_list_outputs_only_paths [of abspath inputs' outputs k v]
    by (auto simp: list_outputs_def)
  have defaults: "default_inputs ACTPrepareFSLInputSpec ''out_file'' = Some (VStr ''act_5tt.mif'')"
    "ACTPrepareFSL_list_outputs abspath (default_inputs ACTPrepareFSLInputSpec) =
       Inr (Map.empty(''out_file'' \<mapsto> VStr (abspath ''act_5tt.mif'')))"
    "ReplaceFSwithFIRST_list_outputs abspath (default_inputs ReplaceFSwithFIRSTInputSpec) =
       Inr (Map.empty(''out_file'' \<mapsto> VStr (abspath ''aparc+first.mif'')))"
    by (simp_all add: default_inputs_def ACTPrepareFSLInputSpec_def
        ReplaceFSwithFIRSTInputSpec_def mk_trait_def ACTPrepareFSL_list_outputs_def
        ReplaceFSwithFIRST_list_outputs_def)
  from names starts methods paths defaults show ?thesis
    by (intro conjI)
qed

lemma ACTPrepareFSL_doc:
  "cmdline ACTPrepareFSL ((default_inputs ACTPrepareFSLInputSpec)(''in_file'' \<mapsto> VStr ''T1.nii.gz'')) =
     Inr ''act_anat_prepare_fsl T1.nii.gz act_5tt.mif''"
  by code_simp

theorem wrappers_name_fixed_binaries_witness:
  "cmdline ACTPrepareFSL ((default_inputs ACTPrepareFSLInputSpec)(''in_file'' \<mapsto> VStr ''T1.nii.gz'')) =
     Inr ''act_anat_prepare_fsl T1.nii.gz act_5tt.mif'' \<and>
   (''act_anat_prepare_fsl T1.nii.gz act_5tt.mif'' = cmd ACTPrepareFSL \<or>
    prefix (cmd ACTPrepareFSL @ '' '') ''act_anat_prepare_fsl T1.nii.gz act_5tt.mif'') \<and>
   (\<exists>p. default_inputs ACTPrepareFSLInputSpec ''out_file'' = Some (VStr p) \<and>
        VStr ''/work/act_5tt.mif'' = VStr (''/work/'' @ p))"
proof -
  let ?inputs = "(default_inputs ACTPrepareFSLInputSpec)(''in_file'' \<mapsto> VStr ''T1.nii.gz'')"
  let ?l = "''act_anat_prepare_fsl T1.nii.gz act_5tt.mif''"
  have w: "(''ACTPrepareFSL'', ACTPrepareFSL) \<in> set wrappers"
    by (simp add: wrappers_def)
  have f: "(''ACTPrepareFSL'', ACTPrepareFSL_list_outputs) \<in> set list_outputs"
    by (simp add: list_outputs_def)
  have o: "ACTPrepareFSL_list_outputs (\<lambda>p. ''/work/'' @ p) (default_inputs ACTPrepareFSLInputSpec) =
      Inr [''out_file'' \<mapsto> VStr ''/work/act_5tt.mif'']"
    by (simp add: default_inputs_def ACTPrepareFSLInputSpec_def mk_trait_def
        ACTPrepareFSL_list_outputs_def)
  have "?l = cmd ACTPrepareFSL \<or> prefix (cmd ACTPrepareFSL @ '' '') ?l"
    using wrappers_name_fixed_binaries [where n = "''ACTPrepareFSL''" and w = ACTPrepareFSL
        and inputs = ?inputs and l = ?l]
      w ACTPrepareFSL_doc by blast
  moreover have "\<exists>p. default_inputs ACTPrepareFSLInputSpec ''out_file'' = Some (VStr p) \<and>
        VStr ''/work/act_5tt.mif'' = VStr (''/work/'' @ p)"
    using wrappers_name_fixed_binaries [where m = "''ACTPrepareFSL''"
        and f = ACTPrepareFSL_list_outputs and abspath = "\<lambda>p. ''/work/'' @ p"
        and inputs' = "default_inputs ACTPrepareFSLInputSpec"
        and outputs = "[''out_file'' \<mapsto> VStr ''/work/act_5tt.mif'']" and k = "''out_file''"
        and v = "VStr ''/work/act_5tt.mif''"]
      f o by simp
  ultimately show ?thesis
    using ACTPrepareFSL_doc by (intro conjI)
qed

section \<open>Properties of the command lines\<close>

lemmas spec_defs = MRTrix3BaseInputSpec_def DWIDenoiseInputSpec_def MRDeGibbsInputSpec_def
  DWIBiasCorrectInputSpec_def ResponseSDInputSpec_def mk_trait_def
  DWIDenoise_def MRDeGibbs_def DWIBiasCorrect_def ResponseSD_def

lemmas engine_defs = build_def cmdline_def parse_inputs_def parse_trait_def
  check_mandatory_inputs_def set_input_def lookup_trait_def validate_def default_inputs_def
  filename_from_source_def format_arg_def fmt_def dict_set_def is_list_type_def endswith_def
  Let_def

lemma pystr_simps [simp]: "pystr (VStr s) = Some s" "pystr (VInt i) = Some (str_int i)"
  by (simp_all add: pystr_def)

lemma str_int_defaults:
  "str_int 0 = ''0''" "str_int 1 = ''1''" "str_int 3 = ''3''" "str_int 20 = ''20''"
  by (simp_all add: str_int_def digits.simps)

lemma DWIDenoise_doc:
  "build DWIDenoise [(''in_file'', VStr ''dwi.mif''), (''mask'', VStr ''mask.mif''),
       (''noise'', VStr ''noise.mif'')] =
     Inr ''dwidenoise -mask mask.mif -noise noise.mif dwi.mif dwi_denoised.mif''"
  by code_simp

lemma DWIDenoise_gen:
  "\<exists>out. build DWIDenoise [(''in_file'', VStr f), (''mask'', VStr m),
       (''noise'', VStr ''noise.mif'')] =
     Inr (''dwidenoise -mask '' @ m @ '' -noise noise.mif '' @ f @ '' '' @ out)"
  by (simp add: spec_defs engine_defs split: prod.splits)

lemma MRDeGibbs_doc:
  "build MRDeGibbs [(''in_file'', VStr ''dwi.mif'')] =
     Inr ''mrdegibbs -axes 0,1 -maxW 3 -minW 1 -nshifts 20 dwi.mif dwi_unr.mif''"
  by code_simp

lemma MRDeGibbs_gen:
  "\<exists>out. build MRDeGibbs [(''in_file'', VStr f)] =
     Inr (''mrdegibbs -axes 0,1 -maxW 3 -minW 1 -nshifts 20 '' @ f @ '' '' @ out)"
  by (simp add: spec_defs engine_defs str_int_defaults split: prod.splits)

lemma MRDeGibbs_defaults:
  "default_inputs MRDeGibbsInputSpec ''axes'' = Some (VList [VInt 0, VInt 1])"
  "default_inputs MRDeGibbsInputSpec ''nshifts'' = Some (VInt 20)"
  "default_inputs MRDeGibbsInputSpec ''minW'' = Some (VInt 1)"
  "default_inputs MRDeGibbsInputSpec ''maxW'' = Some (VInt 3)"
  by (simp_all add: default_inputs_def spec_defs)

lemma DWIBiasCorrect_doc:
  "build DWIBiasCorrect [(''in_file'', VStr ''dwi.mif''), (''use_ants'', VBool True)] =
     Inr ''dwibiascorrect -ants dwi.mif dwi_biascorr.mif''"
  by code_simp

lemma DWIBiasCorrect_ants:
  "\<exists>out. build DWIBiasCorrect [(''in_file'', VStr f), (''use_ants'', VBool True)] =
     Inr (''dwibiascorrect -ants '' @ f @ '' '' @ out)"
  by (simp add: spec_defs engine_defs split: prod.splits)

lemma DWIBiasCorrect_fsl:
  "\<exists>out. build DWIBiasCorrect [(''in_file'', VStr f), (''use_fsl'', VBool True)] =
     Inr (''dwibiascorrect -fsl '' @ f @ '' '' @ out)"
  by (simp add: spec_defs engine_defs split: prod.splits)

lemma DWIBiasCorrect_both:
  "build DWIBiasCorrect [(''in_file'', VStr f), (''use_ants'', VBool a), (''use_fsl'', VBool b)] =
     Inl IOError"
  "build DWIBiasCorrect [(''in_file'', VStr f), (''use_fsl'', VBool b), (''use_ants'', VBool a)] =
     Inl IOError"
  by (simp_all add: spec_defs build_def set_input_def lookup_trait_def validate_def
      default_inputs_def)

lemma DWIBiasCorrect_neither:
  "build DWIBiasCorrect [(''in_file'', VStr f)] = Inl ValueError"
  by (simp add: spec_defs build_def set_input_def lookup_trait_def validate_def
      default_inputs_def cmdline_def check_mandatory_inputs_def)

lemma DWIBiasCorrect_declared:
  "map (\<lambda>t. (tname t, mandatory t, xor_inputs t))
       (filter (\<lambda>t. xor_inputs t \<noteq> None) DWIBiasCorrectInputSpec) =
     [(''use_ants'', True, Some [''use_fsl'']), (''use_fsl'', True, Some [''use_ants''])]"
  by (simp add: spec_defs)

lemma ints_ok:
  "list_all (\<lambda>el. \<exists>y. pystr el = Some y) (map VInt ns)"
  "map ((\<lambda>el. the (pystr el)) \<circ> VInt) ns = map str_int ns"
  "list_all (has_type TInt) (map VInt ns)"
  by (simp_all add: list_all_iff)

lemma ResponseSD_lmax:
  "build ResponseSD [(''in_file'', VStr f), (''algorithm'', VStr ''tournier''),
       (''grad_fsl'', VTuple [VStr bvecs, VStr bvals]), (''max_sh'', VList (map VInt ns))] =
     Inr (''dwi2response tournier -fslgrad '' @ bvecs @ '' '' @ bvals @ '' -lmax '' @
          join '','' (map str_int ns) @ '' '' @ f @ '' wm.txt'')"
  by (simp add: spec_defs engine_defs ints_ok)

lemma ResponseSD_doc:
  "build ResponseSD [(''in_file'', VStr ''dwi.mif''), (''algorithm'', VStr ''tournier''),
       (''grad_fsl'', VTuple [VStr ''bvecs'', VStr ''bvals'']),
       (''max_sh'', VList [VInt 6, VInt 8, VInt 10])] =
     Inr ''dwi2response tournier -fslgrad bvecs bvals -lmax 6,8,10 dwi.mif wm.txt''"
  using ResponseSD_lmax [of "''dwi.mif''" "''bvecs''" "''bvals''" "[6, 8, 10]"]
  by (simp add: str_int_def digits.simps)

text \<open>
  Claim C1. With \<open>in_file\<close>, \<open>mask\<close> and \<open>noise\<close> set to \<open>dwi.mif\<close>, \<open>mask.mif\<close> and
  \<open>noise.mif\<close>, the \<open>DWIDenoise\<close> wrapper gives exactly the command line
  \<open>dwidenoise -mask mask.mif -noise noise.mif dwi.mif dwi_denoised.mif\<close>. For every input
  file and mask the options are rendered as \<open>-mask\<close> and \<open>-noise\<close> with their paths, the
  input file is second to last and the generated output name is last.
\<close>

theorem DWIDenoise_cmdline:
  "build DWIDenoise [(''in_file'', VStr ''dwi.mif''), (''mask'', VStr ''mask.mif''),
       (''noise'', VStr ''noise.mif'')] =
     Inr ''dwidenoise -mask mask.mif -noise noise.mif dwi.mif dwi_denoised.mif'' \<and>
   (\<exists>out. build DWIDenoise [(''in_file'', VStr f), (''mask'', VStr m),
       (''noise'', VStr ''noise.mif'')] =
     Inr (''dwidenoise -mask '' @ m @ '' -noise noise.mif '' @ f @ '' '' @ out))"
  by (intro conjI DWIDenoise_doc DWIDenoise_gen)

text \<open>
  Claim C3. A \<open>MRDeGibbs\<close> wrapper with only \<open>in_file\<close> set holds the defaults
  \<open>axes = [0, 1]\<close>, \<open>nshifts = 20\<close>, \<open>minW = 1\<close> and \<open>maxW = 3\<close>, and renders them for every
  input file; for \<open>dwi.mif\<close> the command line is exactly
  \<open>mrdegibbs -axes 0,1 -maxW 3 -minW 1 -nshifts 20 dwi.mif dwi_unr.mif\<close>.
\<close>

theorem MRDeGibbs_defaults_applied:
  "build MRDeGibbs [(''in_file'', VStr ''dwi.mif'')] =
     Inr ''mrdegibbs -axes 0,1 -maxW 3 -minW 1 -nshifts 20 dwi.mif dwi_unr.mif'' \<and>
   (\<exists>out. build MRDeGibbs [(''in_file'', VStr f)] =
     Inr (''mrdegibbs -axes 0,1 -maxW 3 -minW 1 -nshifts 20 '' @ f @ '' '' @ out)) \<and>
   default_inputs MRDeGibbsInputSpec ''axes'' = Some (VList [VInt 0, VInt 1]) \<and>
   default_inputs MRDeGibbsInputSpec ''nshifts'' = Some (VInt 20) \<and>
   default_inputs MRDeGibbsInputSpec ''minW'' = Some (VInt 1) \<and>
   default_inputs MRDeGibbsInputSpec ''maxW'' = Some (VInt 3)"
  by (intro conjI MRDeGibbs_doc MRDeGibbs_gen MRDeGibbs_defaults)

text \<open>
  Claim C4. \<open>use_ants\<close> and \<open>use_fsl\<close> are the two inputs of \<open>DWIBiasCorrect\<close> declared
  with \<open>xor\<close>, each mandatory and exclusive of the other. With one of them set to \<open>True\<close>
  and the other not set, the command line is built and holds \<open>-ants\<close> (or \<open>-fsl\<close>) after
  the program name. With both given, in either order and whatever their values, no command
  line is built: the second assignment raises. With neither given, building the command
  line raises.
\<close>

theorem DWIBiasCorrect_ants_xor_fsl:
  "map (\<lambda>t. (tname t, mandatory t, xor_inputs t))
       (filter (\<lambda>t. xor_inputs t \<noteq> None) DWIBiasCorrectInputSpec) =
     [(''use_ants'', True, Some [''use_fsl'']), (''use_fsl'', True, Some [''use_ants''])] \<and>
   build DWIBiasCorrect [(''in_file'', VStr ''dwi.mif''), (''use_ants'', VBool True)] =
     Inr ''dwibiascorrect -ants dwi.mif dwi_biascorr.mif'' \<and>
   (\<exists>out. build DWIBiasCorrect [(''in_file'', VStr f), (''use_ants'', VBool True)] =
     Inr (''dwibiascorrect -ants '' @ f @ '' '' @ out)) \<and>
   (\<exists>out. build DWIBiasCorrect [(''in_file'', VStr f), (''use_fsl'', VBool True)] =
     Inr (''dwibiascorrect -fsl '' @ f @ '' '' @ out)) \<and>
   build DWIBiasCorrect [(''in_file'', VStr f), (''use_ants'', VBool a), (''use_fsl'', VBool b)] =
     Inl IOError \<and>
   build DWIBiasCorrect [(''in_file'', VStr f), (''use_fsl'', VBool b), (''use_ants'', VBool a)] =
     Inl IOError \<and>
   build DWIBiasCorrect [(''in_file'', VStr f)] = Inl ValueError"
  by (intro conjI DWIBiasCorrect_declared DWIBiasCorrect_doc DWIBiasCorrect_ants
      DWIBiasCorrect_fsl DWIBiasCorrect_both DWIBiasCorrect_neither)

text \<open>
  Claim C6. A \<open>max_sh\<close> given as a list of integers is rendered by \<open>ResponseSD\<close> as the one
  option \<open>-lmax\<close> followed by the integers joined with commas, after the other options and
  before the positional arguments; with \<open>[6, 8, 10]\<close>, the algorithm \<open>tournier\<close>, the gradient
  files \<open>bvecs\<close> and \<open>bvals\<close> and the input \<open>dwi.mif\<close> the command line is exactly
  \<open>dwi2response tournier -fslgrad bvecs bvals -lmax 6,8,10 dwi.mif wm.txt\<close>.
\<close>

theorem ResponseSD_lmax_rendered:
  "build ResponseSD [(''in_file'', VStr f), (''algorithm'', VStr ''tournier''),
       (''grad_fsl'', VTuple [VStr bvecs, VStr bvals]), (''max_sh'', VList (map VInt ns))] =
     Inr (''dwi2response tournier -fslgrad '' @ bvecs @ '' '' @ bvals @ '' -lmax '' @
          join '','' (map str_int ns) @ '' '' @ f @ '' wm.txt'') \<and>
   build ResponseSD [(''in_file'', VStr ''dwi.mif''), (''algorithm'', VStr ''tournier''),
       (''grad_fsl'', VTuple [VStr ''bvecs'', VStr ''bvals'']),
       (''max_sh'', VList [VInt 6, VInt 8, VInt 10])] =
     Inr ''dwi2response tournier -fslgrad bvecs bvals -lmax 6,8,10 dwi.mif wm.txt''"
  by (intro conjI ResponseSD_lmax ResponseSD_doc)

end
